theory Spec2Isabelle
  imports Main
begin

section \<open>The market-data request command of sylr.dev/fix\<close>

text \<open>
  The development embeds package \<open>marketdatarequest\<close>: the functions \<open>Validate\<close>,
  \<open>Execute\<close> and \<open>buildMessage\<close>. Everything the package calls that lives in another
  package (the configuration, the FIX engine, the token tables of package \<open>dict\<close>, the Go
  standard library) is an explicit parameter: its answers are read from a record, and
  every call that reaches the engine is written to a trace.
\<close>

subsection \<open>Errors\<close>

text \<open>
  The sentinel errors of package \<open>errors\<close> that the command returns. \<open>Options msg\<close> is
  \<open>fmt.Errorf("%w: ...", errors.Options, ...)\<close> with the formatted text after the colon.
  \<open>External\<close> is an error handed back by a collaborator (configuration, engine, flag
  reconciliation); the command passes it on unchanged.
\<close>

datatype error =
    OptionsNoSymbolGiven
  | OptionsNoTypeGiven
  | Options string
  | ConnectionTimeout
  | FixLogout
  | FixVersionNotImplemented
  | External string

subsection \<open>Messages\<close>

text \<open>The tags of package \<open>tag\<close> that \<open>buildMessage\<close> writes.\<close>

datatype tag =
    tag_BeginString
  | tag_MsgType
  | tag_MDReqID
  | tag_SubscriptionRequestType
  | tag_MarketDepth
  | tag_MDUpdateType
  | tag_NoMDEntryTypes
  | tag_MDEntryType
  | tag_NoRelatedSym
  | tag_Symbol
  | tag_TargetCompID
  | tag_TargetSubID
  | tag_SenderCompID
  | tag_SenderSubID

text \<open>
  A field value is a string (the enum types of package \<open>enum\<close> are Go string types) or
  an integer (\<open>MarketDepth\<close>).
\<close>

datatype fix_value = FIXString string | FIXInt int

type_synonym field = "tag \<times> fix_value"

type_synonym group = "tag \<rightharpoonup> fix_value"

text \<open>
  \<open>quickfix.RepeatingGroup\<close>: the counter tag, the template and the group instances
  in the order they were added.
\<close>

record repeating_group =
  rg_tag :: tag
  rg_template :: "tag list"
  rg_groups :: "group list"

text \<open>
  \<open>quickfix.FieldMap\<close>, the type of a message's header and body: at most one value
  per tag, and the repeating groups stored under their counter tags.
\<close>

record field_map =
  Fields :: "tag \<rightharpoonup> fix_value"
  Groups :: "tag \<rightharpoonup> repeating_group"

record message =
  Header :: field_map
  Body :: field_map

definition empty_field_map :: field_map where
  "empty_field_map = \<lparr>Fields = Map.empty, Groups = Map.empty\<rparr>"

text \<open>\<open>FieldMap.Set\<close> overwrites the value stored under the field's tag.\<close>

definition Set_field :: "field \<Rightarrow> field_map \<Rightarrow> field_map" where
  "Set_field f m = m\<lparr>Fields := (Fields m)(fst f \<mapsto> snd f)\<rparr>"

text \<open>\<open>FieldMap.SetGroup\<close> stores the repeating group under its counter tag.\<close>

definition SetGroup :: "repeating_group \<Rightarrow> field_map \<Rightarrow> field_map" where
  "SetGroup g m = m\<lparr>Groups := (Groups m)(rg_tag g \<mapsto> g)\<rparr>"

definition NewRepeatingGroup :: "tag \<Rightarrow> tag list \<Rightarrow> repeating_group" where
  "NewRepeatingGroup t tmpl = \<lparr>rg_tag = t, rg_template = tmpl, rg_groups = []\<rparr>"

text \<open>
  \<open>g.Add().Set(f)\<close>: \<open>Add\<close> appends a fresh, empty group instance to the repeating
  group and returns it, \<open>Set\<close> writes the field into that instance.
\<close>

definition Add_Set :: "field \<Rightarrow> repeating_group \<Rightarrow> repeating_group" where
  "Add_Set f g = g\<lparr>rg_groups := rg_groups g @ [Map.empty(fst f \<mapsto> snd f)]\<rparr>"

text \<open>\<open>quickfix.NewMessage()\<close>: empty header and body.\<close>

definition NewMessage :: message where
  "NewMessage = \<lparr>Header = empty_field_map, Body = empty_field_map\<rparr>"

text \<open>Constants of packages \<open>quickfix\<close> and \<open>enum\<close>, with their FIX wire values.\<close>

definition BeginStringFIXT11 :: string where
  "BeginStringFIXT11 = ''FIXT.1.1''"

definition MsgType_MARKET_DATA_REQUEST :: string where
  "MsgType_MARKET_DATA_REQUEST = ''V''"

definition MDUpdateType_FULL_REFRESH :: string where
  "MDUpdateType_FULL_REFRESH = ''0''"

definition MDUpdateType_INCREMENTAL_REFRESH :: string where
  "MDUpdateType_INCREMENTAL_REFRESH = ''1''"

text \<open>The field constructors of package \<open>field\<close>: each pairs its tag with the value.\<close>

definition NewMsgType :: "string \<Rightarrow> field" where
  "NewMsgType x = (tag_MsgType, FIXString x)"

definition NewMDReqID :: "string \<Rightarrow> field" where
  "NewMDReqID x = (tag_MDReqID, FIXString x)"

definition NewSubscriptionRequestType :: "string \<Rightarrow> field" where
  "NewSubscriptionRequestType x = (tag_SubscriptionRequestType, FIXString x)"

definition NewMarketDepth :: "int \<Rightarrow> field" where
  "NewMarketDepth n = (tag_MarketDepth, FIXInt n)"

definition NewMDUpdateType :: "string \<Rightarrow> field" where
  "NewMDUpdateType x = (tag_MDUpdateType, FIXString x)"

definition NewMDEntryType :: "string \<Rightarrow> field" where
  "NewMDEntryType x = (tag_MDEntryType, FIXString x)"

definition NewSymbol :: "string \<Rightarrow> field" where
  "NewSymbol x = (tag_Symbol, FIXString x)"

definition NewTargetCompID :: "string \<Rightarrow> field" where
  "NewTargetCompID x = (tag_TargetCompID, FIXString x)"

definition NewTargetSubID :: "string \<Rightarrow> field" where
  "NewTargetSubID x = (tag_TargetSubID, FIXString x)"

definition NewSenderCompID :: "string \<Rightarrow> field" where
  "NewSenderCompID x = (tag_SenderCompID, FIXString x)"

definition NewSenderSubID :: "string \<Rightarrow> field" where
  "NewSenderSubID x = (tag_SenderSubID, FIXString x)"

text \<open>
  \<open>fixt11.NewHeader(&message.Header)\<close> wraps the header and writes the transport
  version into it.
\<close>

definition fixt11_NewHeader :: "message \<Rightarrow> message" where
  "fixt11_NewHeader m =
     m\<lparr>Header := Set_field (tag_BeginString, FIXString BeginStringFIXT11) (Header m)\<rparr>"

subsection \<open>What the command reads from other packages\<close>

text \<open>
  \<open>strings.ToUpper\<close> and the two token tables of package \<open>dict\<close> that the command
  consults. The tables' contents are not part of this package, so every theorem holds for
  any tables.
\<close>

record lib =
  ToUpper :: "string \<Rightarrow> string"
  MDEntryTypes :: "string \<rightharpoonup> string"
  SubscriptionRequestTypes :: "string \<rightharpoonup> string"

text \<open>
  Indexing a Go map with a key it does not hold gives the zero value of the value type,
  here the empty string.
\<close>

definition index_map :: "(string \<rightharpoonup> string) \<Rightarrow> string \<Rightarrow> string" where
  "index_map m k = (case m k of None \<Rightarrow> [] | Some v \<Rightarrow> v)"

text \<open>The package-level variables the flags are parsed into.\<close>

record option_vars =
  optionTypes :: "string list"
  optionSymbols :: "string list"
  optionFullSnap :: bool
  optionSubType :: string
  optionMDReqID :: string

text \<open>
  \<open>config.Session\<close>, with the answer of its method \<open>GetFIXDictionaries\<close>. The
  source holds sessions by pointer; the pointers are taken to be non-nil.
\<close>

type_synonym data_dictionary = string

record session =
  BeginString :: string
  DefaultApplVerID :: string
  SenderCompID :: string
  SenderSubID :: string
  TargetCompID :: string
  TargetSubID :: string
  GetFIXDictionaries :: "error + data_dictionary \<times> data_dictionary"

subsection \<open>buildMessage\<close>

text \<open>
  Modelled from the spec: \<open>utils.QuickFixMessagePartSetString\<close> is a function of this
  repository whose source is not among the files at hand. The specification says of the
  header routing fields that "a field is set only if the corresponding session value is
  non-empty (sparse population -- absent optional identifiers must not be sent as empty
  strings)"; the definition sets the field when the value is non-empty and leaves the
  field map alone otherwise.
\<close>

definition QuickFixMessagePartSetString :: "field_map \<Rightarrow> string \<Rightarrow> (string \<Rightarrow> field) \<Rightarrow> field_map" where
  "QuickFixMessagePartSetString part v new_field =
     (if v \<noteq> [] then Set_field (new_field v) part else part)"

text \<open>
  The two \<open>range\<close> loops of \<open>buildMessage\<close>: one \<open>Add().Set(...)\<close> per element, from
  the first element to the last.
\<close>

fun add_entry_types :: "lib \<Rightarrow> string list \<Rightarrow> repeating_group \<Rightarrow> repeating_group" where
  "add_entry_types L [] g = g"
| "add_entry_types L (t # ts) g =
     add_entry_types L ts
       (Add_Set (NewMDEntryType (index_map (MDEntryTypes L) (ToUpper L t))) g)"

fun add_symbols :: "string list \<Rightarrow> repeating_group \<Rightarrow> repeating_group" where
  "add_symbols [] g = g"
| "add_symbols (symb # symbs) g =
     add_symbols symbs (Add_Set (NewSymbol symb) g)"

text \<open>
  \<open>buildMessage\<close> reads the option variables and the session. It returns the message,
  or \<open>nil\<close> and \<open>errors.FixVersionNotImplemented\<close> from either \<open>default\<close> branch of
  the two nested switches.
\<close>

definition buildMessage :: "lib \<Rightarrow> option_vars \<Rightarrow> session \<Rightarrow> error + message" where
  "buildMessage L v s =
    (let mdReqID = NewMDReqID (optionMDReqID v);
         subReqType = NewSubscriptionRequestType
            (index_map (SubscriptionRequestTypes L) (ToUpper L (optionSubType v)));
         marketDepth = NewMarketDepth 0;
         updateType = (if optionFullSnap v then MDUpdateType_FULL_REFRESH
                       else MDUpdateType_INCREMENTAL_REFRESH);
         message = fixt11_NewHeader NewMessage;
         switched =
           (if BeginString s = BeginStringFIXT11 then
              if DefaultApplVerID s = ''FIX.5.0SP2'' then
                let h1 = Set_field (NewMsgType MsgType_MARKET_DATA_REQUEST) (Header message);
                    b1 = Set_field mdReqID (Body message);
                    b2 = Set_field subReqType b1;
                    b3 = Set_field marketDepth b2;
                    b4 = Set_field (NewMDUpdateType updateType) b3;
                    entryTypes = add_entry_types L (optionTypes v)
                                   (NewRepeatingGroup tag_NoMDEntryTypes [tag_MDEntryType]);
                    b5 = SetGroup entryTypes b4;
                    relatedSym = add_symbols (optionSymbols v)
                                   (NewRepeatingGroup tag_NoRelatedSym [tag_Symbol]);
                    b6 = SetGroup relatedSym b5
                in Inr \<lparr>Header = h1, Body = b6\<rparr>
              else Inl FixVersionNotImplemented
            else Inl FixVersionNotImplemented)
     in case switched of
          Inl err \<Rightarrow> Inl err
        | Inr message' \<Rightarrow>
            let h2 = QuickFixMessagePartSetString (Header message') (TargetCompID s) NewTargetCompID;
                h3 = QuickFixMessagePartSetString h2 (TargetSubID s) NewTargetSubID;
                h4 = QuickFixMessagePartSetString h3 (SenderCompID s) NewSenderCompID;
                h5 = QuickFixMessagePartSetString h4 (SenderSubID s) NewSenderSubID
            in Inr (message'\<lparr>Header := h5\<rparr>))"

subsection \<open>Validate\<close>

text \<open>
  The loop over \<open>optionTypes\<close>: it returns at the first token whose upper-cased form is
  not a key of \<open>dict.MDEntryTypes\<close>. The message keeps the source's spelling.
\<close>

fun check_types :: "lib \<Rightarrow> string list \<Rightarrow> error option" where
  "check_types L [] = None"
| "check_types L (t # ts) =
     (if MDEntryTypes L (ToUpper L t) = None
      then Some (Options (''unkonwn type `'' @ t @ ''`''))
      else check_types L ts)"

text \<open>
  \<open>Validate\<close>. Its parameters beside the tables: \<open>reconcile\<close> is what
  \<open>utils.ReconcileBoolFlags(cmd.Flags())\<close> returned (\<open>None\<close> for \<open>nil\<close>; the helper's
  source is not among the files at hand), \<open>uid\<close> is the text of the identifier that
  \<open>uuid.New()\<close> would produce, and \<open>v\<close> holds the option variables as they stand after
  the flags were parsed and reconciled. The result is the error, or the option variables
  as \<open>Validate\<close> leaves them.
\<close>

definition Validate :: "lib \<Rightarrow> error option \<Rightarrow> string \<Rightarrow> option_vars \<Rightarrow> error + option_vars" where
  "Validate L reconcile uid v =
    (case reconcile of
       Some err \<Rightarrow> Inl err
     | None \<Rightarrow>
        if length (optionSymbols v) = 0 then Inl OptionsNoSymbolGiven
        else if length (optionTypes v) = 0 then Inl OptionsNoTypeGiven
        else (case check_types L (optionTypes v) of
          Some err \<Rightarrow> Inl err
        | None \<Rightarrow>
           if SubscriptionRequestTypes L (ToUpper L (optionSubType v)) = None
           then Inl (Options (''unkonwn subscription type `'' @ optionSubType v @ ''`''))
           else if length (optionMDReqID v) = 0
                then Inr (v\<lparr>optionMDReqID := uid\<rparr>)
                else Inr v))"

subsection \<open>Execute\<close>

text \<open>A \<open>time.Duration\<close>: a number of nanoseconds.\<close>

type_synonym duration = int

definition Second :: duration where
  "Second = 1000000000"

record options =
  Timeout :: duration
  QuickFixLogging :: bool

record initiator_config =
  SocketTimeout :: duration

type_synonym settings = string

text \<open>The current context of the configuration, with the answers of its three methods.\<close>

record config_context =
  GetSessions :: "error + session list"
  GetInitiator :: "error + initiator_config"
  ToQuickFixInitiatorSettings :: "error + settings"

text \<open>The application adapter, as \<open>Execute\<close> fills it in before handing it to the engine.\<close>

record application =
  Settings :: settings
  TransportDataDictionary :: data_dictionary
  AppDataDictionary :: data_dictionary

text \<open>
  The calls \<open>Execute\<close> makes on the engine and on the adapter; the trace of an execution
  lists them in the order they were made. \<open>Call_Initiate\<close> carries the adapter and
  whether a logger was passed to the engine.
\<close>

datatype call =
    Call_Initiate application bool
  | Call_Start
  | Call_Send message
  | Call_app_Stop
  | Call_init_Stop

text \<open>A receive from a channel delivers a value, or reports that the channel is closed.\<close>

datatype recv = Value | Closed

text \<open>What the second \<open>select\<close> receives: a signal, or a receive from \<open>app.FromAppChan\<close>.\<close>

datatype loop_event = Signal | FromAppChan recv

text \<open>
  How \<open>Execute\<close> ends: it returns \<open>nil\<close>, it returns an error, or the index expression
  \<open>sessions[0]\<close> panics.
\<close>

datatype exit = ReturnNil | ReturnErr error | PanicIndexOutOfRange

text \<open>
  The surroundings of one execution. \<open>app_Connected\<close> says what happens first on the
  channel \<open>app.Connected\<close> and when, in nanoseconds after the first \<open>select\<close> is
  entered (\<open>None\<close>: nothing ever happens on it). \<open>select_tie\<close> is the choice
  \<open>select\<close> makes when the timer and the channel are ready at the same instant
  (\<open>True\<close>: the timer). \<open>events\<close> is what the second \<open>select\<close> receives, in order.
\<close>

record world =
  GetOptions :: options
  GetCurrentContext :: "error + config_context"
  initiator_Initiate :: "error option"
  init_Start :: "error option"
  app_Connected :: "(nat \<times> recv) option"
  select_tie :: bool
  quickfix_Send :: "message \<Rightarrow> error option"
  events :: "loop_event list"

text \<open>Lines 226 to 234: the command-line option, then the configured value, then 5 s.\<close>

definition choose_timeout :: "options \<Rightarrow> initiator_config \<Rightarrow> duration" where
  "choose_timeout opts ctxInitiator =
     (if Timeout opts \<noteq> 0 then Timeout opts
      else if SocketTimeout ctxInitiator \<noteq> 0 then SocketTimeout ctxInitiator
      else 5 * Second)"

datatype select_case = Case_After | Case_Connected recv

text \<open>
  The first \<open>select\<close>. The timer of \<open>time.After(d)\<close> is ready at \<open>d\<close> nanoseconds,
  at once when \<open>d\<close> is not positive; the case that is ready first is taken, and
  \<open>tie\<close> decides when both are ready at the same instant.
\<close>

definition select_connected :: "duration \<Rightarrow> (nat \<times> recv) option \<Rightarrow> bool \<Rightarrow> select_case" where
  "select_connected timeout ev tie =
     (case ev of
        None \<Rightarrow> Case_After
      | Some (t, r) \<Rightarrow>
          if int t < max 0 timeout then Case_Connected r
          else if max 0 timeout < int t then Case_After
          else if tie then Case_After else Case_Connected r)"

text \<open>
  The loop labelled \<open>LOOP\<close>. The result is the calls made before the loop is left, or
  \<open>None\<close> when the events run out with the loop still waiting: it then blocks in
  \<open>select\<close> and \<open>Execute\<close> does not return.
\<close>

fun streaming_loop :: "loop_event list \<Rightarrow> call list option" where
  "streaming_loop [] = None"
| "streaming_loop (Signal # es) = Some [Call_app_Stop, Call_init_Stop]"
| "streaming_loop (FromAppChan Closed # es) = Some []"
| "streaming_loop (FromAppChan Value # es) = streaming_loop es"

text \<open>
  \<open>Execute\<close>: how it ends (\<open>None\<close> when it does not return) and the trace of its calls.
\<close>

definition Execute :: "lib \<Rightarrow> option_vars \<Rightarrow> world \<Rightarrow> exit option \<times> call list" where
  "Execute L v w =
    (let opts = GetOptions w in
     case GetCurrentContext w of
       Inl err \<Rightarrow> (Some (ReturnErr err), [])
     | Inr ctx \<Rightarrow>
    (case GetSessions ctx of
       Inl err \<Rightarrow> (Some (ReturnErr err), [])
     | Inr sessions \<Rightarrow>
    (case GetInitiator ctx of
       Inl err \<Rightarrow> (Some (ReturnErr err), [])
     | Inr ctxInitiator \<Rightarrow>
    (case sessions of
       [] \<Rightarrow> (Some PanicIndexOutOfRange, [])
     | session # _ \<Rightarrow>
    (case GetFIXDictionaries session of
       Inl err \<Rightarrow> (Some (ReturnErr err), [])
     | Inr (transportDict, appDict) \<Rightarrow>
    (case ToQuickFixInitiatorSettings ctx of
       Inl err \<Rightarrow> (Some (ReturnErr err), [])
     | Inr settings \<Rightarrow>
    (let app = \<lparr>Settings = settings, TransportDataDictionary = transportDict,
                AppDataDictionary = appDict\<rparr>;
         t1 = [Call_Initiate app (QuickFixLogging opts)]
     in
     case initiator_Initiate w of
       Some err \<Rightarrow> (Some (ReturnErr err), t1)
     | None \<Rightarrow>
    (let t2 = t1 @ [Call_Start] in
     case init_Start w of
       Some err \<Rightarrow> (Some (ReturnErr err), t2)
     | None \<Rightarrow>
    (let timeout = choose_timeout opts ctxInitiator in
     case select_connected timeout (app_Connected w) (select_tie w) of
       Case_After \<Rightarrow> (Some (ReturnErr ConnectionTimeout), t2)
     | Case_Connected Closed \<Rightarrow> (Some (ReturnErr FixLogout), t2)
     | Case_Connected Value \<Rightarrow>
    (case buildMessage L v session of
       Inl err \<Rightarrow> (Some (ReturnErr err), t2)
     | Inr securitylist \<Rightarrow>
    (let t3 = t2 @ [Call_Send securitylist] in
     case quickfix_Send w securitylist of
       Some err \<Rightarrow> (Some (ReturnErr err), t3)
     | None \<Rightarrow>
    (case streaming_loop (events w) of
       None \<Rightarrow> (None, t3)
     | Some stops \<Rightarrow> (Some ReturnNil, t3 @ stops)))))))))))))"

text \<open>
  The command: cobra runs \<open>PersistentPreRunE\<close>, and \<open>RunE\<close> only when that returned
  \<open>nil\<close>. \<open>PersistentPreRunE\<close> is \<open>Validate\<close> followed by the parent command's hook;
  \<open>parent\<close> is that hook's result (\<open>None\<close> also when there is no parent or no hook).
  \<open>Execute\<close> reads the option variables as \<open>Validate\<close> left them.
\<close>

definition MarketDataRequestCmd ::
  "lib \<Rightarrow> error option \<Rightarrow> string \<Rightarrow> error option \<Rightarrow> option_vars \<Rightarrow> world \<Rightarrow> exit option \<times> call list" where
  "MarketDataRequestCmd L reconcile uid parent v w =
     (case Validate L reconcile uid v of
        Inl err \<Rightarrow> (Some (ReturnErr err), [])
      | Inr v' \<Rightarrow>
         (case parent of
            Some err \<Rightarrow> (Some (ReturnErr err), [])
          | None \<Rightarrow> Execute L v' w))"

subsection \<open>Phases of an execution\<close>

text \<open>
  Two predicates to state properties with, not part of the program. \<open>started\<close>: every
  step of \<open>Execute\<close> up to and including \<open>init.Start()\<close> succeeded, with the named
  results; the orchestrator is then waiting for the connection. \<open>start_trace\<close> is the
  trace at that point.
\<close>

definition started ::
  "world \<Rightarrow> config_context \<Rightarrow> session \<Rightarrow> session list \<Rightarrow> initiator_config \<Rightarrow>
   data_dictionary \<Rightarrow> data_dictionary \<Rightarrow> settings \<Rightarrow> bool" where
  "started w ctx s rest ini td ad st \<longleftrightarrow>
     GetCurrentContext w = Inr ctx \<and> GetSessions ctx = Inr (s # rest) \<and>
     GetInitiator ctx = Inr ini \<and> GetFIXDictionaries s = Inr (td, ad) \<and>
     ToQuickFixInitiatorSettings ctx = Inr st \<and>
     initiator_Initiate w = None \<and> init_Start w = None"

definition start_trace :: "world \<Rightarrow> data_dictionary \<Rightarrow> data_dictionary \<Rightarrow> settings \<Rightarrow> call list" where
  "start_trace w td ad st =
     [Call_Initiate \<lparr>Settings = st, TransportDataDictionary = td, AppDataDictionary = ad\<rparr>
        (QuickFixLogging (GetOptions w)),
      Call_Start]"

text \<open>
  \<open>sent\<close>: the session was connected before the timer fired, the message \<open>msg\<close> was
  built and \<open>quickfix.Send\<close> accepted it; the orchestrator is then in its event loop.
\<close>

definition sent ::
  "lib \<Rightarrow> option_vars \<Rightarrow> world \<Rightarrow> session \<Rightarrow> initiator_config \<Rightarrow> message \<Rightarrow> bool" where
  "sent L v w s ini msg \<longleftrightarrow>
     select_connected (choose_timeout (GetOptions w) ini) (app_Connected w) (select_tie w)
       = Case_Connected Value \<and>
     buildMessage L v s = Inr msg \<and> quickfix_Send w msg = None"

text \<open>
  \<open>returns_unsent\<close>: \<open>Execute\<close> returns the error \<open>e\<close> and its trace holds no call
  of \<open>quickfix.Send\<close>.
\<close>

definition returns_unsent :: "lib \<Rightarrow> option_vars \<Rightarrow> world \<Rightarrow> error \<Rightarrow> bool" where
  "returns_unsent L v w e \<longleftrightarrow>
     fst (Execute L v w) = Some (ReturnErr e) \<and> (\<forall>m. Call_Send m \<notin> set (snd (Execute L v w)))"

subsection \<open>Sample inputs\<close>

text \<open>
  A table instance for concrete runs: the tokens the flag help texts and defaults name
  (\<open>bid\<close>, \<open>offer\<close>, \<open>trade\<close>; \<open>snapshot\<close>) with their FIX codes, and upper-casing of the
  ASCII letters for \<open>strings.ToUpper\<close>.
\<close>

definition upper_char :: "char \<Rightarrow> char" where
  "upper_char c =
     (case map_of (zip ''abcdefghijklmnopqrstuvwxyz'' ''ABCDEFGHIJKLMNOPQRSTUVWXYZ'') c of
        None \<Rightarrow> c | Some u \<Rightarrow> u)"

definition sample_lib :: lib where
  "sample_lib = \<lparr>ToUpper = map upper_char,
     MDEntryTypes = [''BID'' \<mapsto> ''0'', ''OFFER'' \<mapsto> ''1'', ''TRADE'' \<mapsto> ''2''],
     SubscriptionRequestTypes = [''SNAPSHOT'' \<mapsto> ''0'']\<rparr>"

definition sample_session :: session where
  "sample_session = \<lparr>BeginString = ''FIXT.1.1'', DefaultApplVerID = ''FIX.5.0SP2'',
     SenderCompID = ''CLIENT'', SenderSubID = '''', TargetCompID = ''BROKER'', TargetSubID = '''',
     GetFIXDictionaries = Inr (''FIXT11.xml'', ''FIX50SP2.xml'')\<rparr>"

definition sample_vars :: option_vars where
  "sample_vars = \<lparr>optionTypes = [''bid'', ''offer''], optionSymbols = [''EUR/USD''],
     optionFullSnap = True, optionSubType = ''snapshot'', optionMDReqID = ''req-1''\<rparr>"

definition sample_context :: config_context where
  "sample_context = \<lparr>GetSessions = Inr [sample_session],
     GetInitiator = Inr \<lparr>SocketTimeout = 0\<rparr>,
     ToQuickFixInitiatorSettings = Inr ''settings''\<rparr>"

text \<open>
  A run in which every collaborator succeeds: the session is connected after 1 ms, one
  application message arrives, then the user interrupts.
\<close>

definition sample_world :: world where
  "sample_world = \<lparr>GetOptions = \<lparr>Timeout = 0, QuickFixLogging = False\<rparr>,
     GetCurrentContext = Inr sample_context,
     initiator_Initiate = None,
     init_Start = None,
     app_Connected = Some (1000000, Value),
     select_tie = True,
     quickfix_Send = (\<lambda>m. None),
     events = [FromAppChan Value, Signal]\<rparr>"

text \<open>Variations of the sample run: no session, a second session, an unsupported version.\<close>

definition no_sessions_world :: world where
  "no_sessions_world = sample_world\<lparr>GetCurrentContext := Inr (sample_context\<lparr>GetSessions := Inr []\<rparr>)\<rparr>"

definition second_session :: session where
  "second_session = sample_session\<lparr>BeginString := ''FIX.4.4'',
     GetFIXDictionaries := Inr (''FIX44.xml'', ''FIX44.xml'')\<rparr>"

definition two_sessions_context :: config_context where
  "two_sessions_context =
     sample_context\<lparr>GetSessions := Inr [sample_session, second_session]\<rparr>"

definition unsupported_world :: world where
  "unsupported_world = sample_world\<lparr>GetCurrentContext := Inr (sample_context\<lparr>GetSessions :=
        Inr [sample_session\<lparr>DefaultApplVerID := ''FIX.5.0''\<rparr>]\<rparr>)\<rparr>"

text \<open>The text of an identifier as \<open>uuid.New().String()\<close> gives it: 36 characters.\<close>

definition sample_uid :: string where
  "sample_uid = ''3b241101-e2bb-4255-8caf-4136c566a962''"

section \<open>Properties of buildMessage\<close>

lemma add_entry_types_groups:
  "rg_groups (add_entry_types L ts g) =
     rg_groups g @
     map (\<lambda>t. [tag_MDEntryType \<mapsto> FIXString (index_map (MDEntryTypes L) (ToUpper L t))]) ts"
  by (induction ts arbitrary: g) (simp_all add: Add_Set_def NewMDEntryType_def)

lemma add_entry_types_tag: "rg_tag (add_entry_types L ts g) = rg_tag g"
  by (induction ts arbitrary: g) (simp_all add: Add_Set_def)

lemma add_symbols_groups:
  "rg_groups (add_symbols ss g) = rg_groups g @ map (\<lambda>x. [tag_Symbol \<mapsto> FIXString x]) ss"
  by (induction ss arbitrary: g) (simp_all add: Add_Set_def NewSymbol_def)

lemma add_symbols_tag: "rg_tag (add_symbols ss g) = rg_tag g"
  by (induction ss arbitrary: g) (simp_all add: Add_Set_def)

lemma buildMessage_supported:
  assumes "BeginString s = ''FIXT.1.1''" and "DefaultApplVerID s = ''FIX.5.0SP2''"
  shows "\<exists>m. buildMessage L v s = Inr m"
  using assms by (simp add: buildMessage_def BeginStringFIXT11_def Let_def)

lemma buildMessage_Inr_version:
  assumes "buildMessage L v s = Inr m"
  shows "BeginString s = ''FIXT.1.1'' \<and> DefaultApplVerID s = ''FIX.5.0SP2''"
  using assms
  by (auto simp add: buildMessage_def BeginStringFIXT11_def Let_def split: if_splits)

lemma buildMessage_Body_Groups:
  assumes "buildMessage L v s = Inr m"
  shows "Groups (Body m) tag_NoMDEntryTypes =
           Some (add_entry_types L (optionTypes v)
                   (NewRepeatingGroup tag_NoMDEntryTypes [tag_MDEntryType]))"
    and "Groups (Body m) tag_NoRelatedSym =
           Some (add_symbols (optionSymbols v) (NewRepeatingGroup tag_NoRelatedSym [tag_Symbol]))"
  using assms
  by (auto simp add: buildMessage_def BeginStringFIXT11_def Let_def SetGroup_def Set_field_def
      add_entry_types_tag add_symbols_tag NewRepeatingGroup_def split: if_splits)

lemma buildMessage_Body_Fields:
  assumes "buildMessage L v s = Inr m"
  shows "Fields (Body m) =
     [tag_MDReqID \<mapsto> FIXString (optionMDReqID v),
      tag_SubscriptionRequestType \<mapsto>
        FIXString (index_map (SubscriptionRequestTypes L) (ToUpper L (optionSubType v))),
      tag_MarketDepth \<mapsto> FIXInt 0,
      tag_MDUpdateType \<mapsto>
        FIXString (if optionFullSnap v then MDUpdateType_FULL_REFRESH
                   else MDUpdateType_INCREMENTAL_REFRESH)]"
  using assms
  by (auto simp add: buildMessage_def BeginStringFIXT11_def Let_def SetGroup_def Set_field_def
      NewMessage_def fixt11_NewHeader_def empty_field_map_def NewMDReqID_def
      NewSubscriptionRequestType_def NewMarketDepth_def NewMDUpdateType_def split: if_splits)

lemma buildMessage_Header_Fields:
  assumes "buildMessage L v s = Inr m"
  shows "Fields (Header m) t =
    (if t = tag_BeginString then Some (FIXString BeginStringFIXT11)
     else if t = tag_MsgType then Some (FIXString MsgType_MARKET_DATA_REQUEST)
     else if t = tag_TargetCompID \<and> TargetCompID s \<noteq> [] then Some (FIXString (TargetCompID s))
     else if t = tag_TargetSubID \<and> TargetSubID s \<noteq> [] then Some (FIXString (TargetSubID s))
     else if t = tag_SenderCompID \<and> SenderCompID s \<noteq> [] then Some (FIXString (SenderCompID s))
     else if t = tag_SenderSubID \<and> SenderSubID s \<noteq> [] then Some (FIXString (SenderSubID s))
     else None)"
  using assms
  by (auto simp add: buildMessage_def Let_def QuickFixMessagePartSetString_def Set_field_def
      NewMessage_def fixt11_NewHeader_def empty_field_map_def NewMsgType_def
      NewTargetCompID_def NewTargetSubID_def NewSenderCompID_def NewSenderSubID_def
      split: if_splits)

lemma Execute_started:
  assumes "started w ctx s rest ini td ad st"
  shows "Execute L v w =
    (case select_connected (choose_timeout (GetOptions w) ini) (app_Connected w) (select_tie w) of
       Case_After \<Rightarrow> (Some (ReturnErr ConnectionTimeout), start_trace w td ad st)
     | Case_Connected Closed \<Rightarrow> (Some (ReturnErr FixLogout), start_trace w td ad st)
     | Case_Connected Value \<Rightarrow>
        (case buildMessage L v s of
           Inl err \<Rightarrow> (Some (ReturnErr err), start_trace w td ad st)
         | Inr msg \<Rightarrow>
            (case quickfix_Send w msg of
               Some err \<Rightarrow> (Some (ReturnErr err), start_trace w td ad st @ [Call_Send msg])
             | None \<Rightarrow>
                (case streaming_loop (events w) of
                   None \<Rightarrow> (None, start_trace w td ad st @ [Call_Send msg])
                 | Some stops \<Rightarrow>
                     (Some ReturnNil, start_trace w td ad st @ [Call_Send msg] @ stops)))))"
  using assms
  by (simp add: Execute_def started_def start_trace_def Let_def
      split: select_case.split recv.split sum.split option.split)

lemma Execute_sent:
  assumes "started w ctx s rest ini td ad st" and "sent L v w s ini msg"
  shows "Execute L v w =
    (case streaming_loop (events w) of
       None \<Rightarrow> (None, start_trace w td ad st @ [Call_Send msg])
     | Some stops \<Rightarrow> (Some ReturnNil, start_trace w td ad st @ [Call_Send msg] @ stops))"
  using assms(2) by (simp add: Execute_started [OF assms(1)] sent_def)

lemma streaming_loop_signal:
  "set pre \<subseteq> {FromAppChan Value} \<Longrightarrow>
   streaming_loop (pre @ Signal # post) = Some [Call_app_Stop, Call_init_Stop]"
  by (induction pre) auto

lemma streaming_loop_closed:
  "set pre \<subseteq> {FromAppChan Value} \<Longrightarrow> streaming_loop (pre @ FromAppChan Closed # post) = Some []"
  by (induction pre) auto

lemma streaming_loop_blocked:
  "set es \<subseteq> {FromAppChan Value} \<Longrightarrow> streaming_loop es = None"
  by (induction es) auto

lemma streaming_loop_Some:
  "streaming_loop es = Some cs \<Longrightarrow> cs = [Call_app_Stop, Call_init_Stop] \<or> cs = []"
  by (induction es rule: streaming_loop.induct) auto

lemma start_trace_no_Send: "Call_Send m \<notin> set (start_trace w td ad st)"
  by (simp add: start_trace_def)

lemma Execute_Send_built:
  assumes "Call_Send m \<in> set (snd (Execute L v w))"
  shows "\<exists>s. buildMessage L v s = Inr m"
  using assms
  by (auto simp add: Execute_def Let_def dest: streaming_loop_Some
      split: sum.splits list.splits option.splits select_case.splits recv.splits prod.splits)

lemma sample_started:
  "started (sample_world\<lparr>app_Connected := c, events := es\<rparr>) sample_context sample_session []
     \<lparr>SocketTimeout = 0\<rparr> ''FIXT11.xml'' ''FIX50SP2.xml'' ''settings''"
  by (simp add: started_def sample_world_def sample_context_def sample_session_def)

lemma sample_sent:
  assumes "buildMessage sample_lib sample_vars sample_session = Inr m"
  shows "sent sample_lib sample_vars (sample_world\<lparr>app_Connected := Some (1000000, Value), events := es\<rparr>)
           sample_session \<lparr>SocketTimeout = 0\<rparr> m"
  using assms
  by (simp add: sent_def select_connected_def choose_timeout_def Second_def sample_world_def)

lemma check_types_None:
  "check_types L ts = None \<longleftrightarrow> (\<forall>t \<in> set ts. MDEntryTypes L (ToUpper L t) \<noteq> None)"
  by (induction ts) auto

lemma check_types_map:
  "(check_types L ts = None) =
     list_all (\<lambda>k. MDEntryTypes L k \<noteq> None) (map (ToUpper L) ts)"
  by (induction ts) auto

lemma check_types_upper:
  "map (ToUpper L) ts = map (ToUpper L) ts' \<Longrightarrow>
   (check_types L ts = None) = (check_types L ts' = None)"
  by (simp only: check_types_map)

lemma isl_Validate:
  "isl (Validate L reconcile uid v) \<longleftrightarrow>
      reconcile \<noteq> None \<or> optionSymbols v = [] \<or> optionTypes v = [] \<or>
      check_types L (optionTypes v) \<noteq> None \<or>
      SubscriptionRequestTypes L (ToUpper L (optionSubType v)) = None"
  by (auto simp add: Validate_def split: option.splits)

lemma sample_uppers:
  "ToUpper sample_lib ''bid'' = ''BID''" "ToUpper sample_lib ''offer'' = ''OFFER''"
  "ToUpper sample_lib ''snapshot'' = ''SNAPSHOT''" "ToUpper sample_lib ''BID'' = ''BID''"
  "ToUpper sample_lib ''Offer'' = ''OFFER''" "ToUpper sample_lib ''SnapShot'' = ''SNAPSHOT''"
  "ToUpper sample_lib ''ask'' = ''ASK''"
  by (simp_all add: sample_lib_def upper_char_def)

lemma sample_tables:
  "MDEntryTypes sample_lib ''BID'' = Some ''0''" "MDEntryTypes sample_lib ''OFFER'' = Some ''1''"
  "MDEntryTypes sample_lib ''ASK'' = None"
  "SubscriptionRequestTypes sample_lib ''SNAPSHOT'' = Some ''0''"
  by (simp_all add: sample_lib_def)

lemma MarketDataRequestCmd_Send_built:
  assumes "Call_Send m \<in> set (snd (MarketDataRequestCmd L reconcile uid parent v w))"
  shows "\<exists>v' s. Validate L reconcile uid v = Inr v' \<and> buildMessage L v' s = Inr m"
  using assms Execute_Send_built
  by (fastforce simp add: MarketDataRequestCmd_def split: sum.splits option.splits)

lemma Validate_Inr:
  assumes "Validate L reconcile uid v = Inr v'"
  shows "v' = (if optionMDReqID v = [] then v\<lparr>optionMDReqID := uid\<rparr> else v)"
  using assms by (auto simp add: Validate_def split: option.splits if_splits)

text \<open>
  C1. For every session whose pair (BeginString, DefaultApplVerID) is not the one
  supported pair (FIXT.1.1, FIX.5.0SP2), \<open>buildMessage\<close> fails with
  \<open>errors.FixVersionNotImplemented\<close> (the specification's UnsupportedProtocolVersion);
  the result is the error alone, so no message, partial or whole, is returned.
\<close>

theorem buildMessage_unsupported_version:
  "(BeginString s, DefaultApplVerID s) \<noteq> (''FIXT.1.1'', ''FIX.5.0SP2'') \<Longrightarrow>
   buildMessage L v s = Inl FixVersionNotImplemented"
  by (auto simp: buildMessage_def BeginStringFIXT11_def Let_def)

theorem buildMessage_unsupported_version_witness:
  "(BeginString (sample_session\<lparr>DefaultApplVerID := ''FIX.5.0''\<rparr>),
    DefaultApplVerID (sample_session\<lparr>DefaultApplVerID := ''FIX.5.0''\<rparr>))
     \<noteq> (''FIXT.1.1'', ''FIX.5.0SP2'')
   \<and> buildMessage sample_lib sample_vars (sample_session\<lparr>DefaultApplVerID := ''FIX.5.0''\<rparr>)
       = Inl FixVersionNotImplemented"
  using buildMessage_unsupported_version
    [of "sample_session\<lparr>DefaultApplVerID := ''FIX.5.0''\<rparr>" sample_lib sample_vars]
  by (simp add: sample_session_def)

text \<open>
  C2. For the supported pair (BeginString FIXT.1.1, DefaultApplVerID FIX.5.0SP2) and any
  lists of entry-type tokens and symbols (the non-empty ones among them),
  \<open>buildMessage\<close> returns a message whose message type is MarketDataRequest and whose
  two repeating groups hold exactly one group instance per list element, in the order of
  the list, nothing removed and nothing reordered: the instances of the entry-type group
  are the list of tokens mapped to their codes, the instances of the symbol group are the
  list of symbols. In the specification's scenario (symbols EUR/USD; entry types bid,
  offer; full refresh) the symbol group has 1 instance, the entry-type group has 2, and
  MDUpdateType is FULL_REFRESH.
\<close>

theorem buildMessage_market_data_request:
  assumes "BeginString s = ''FIXT.1.1''" and "DefaultApplVerID s = ''FIX.5.0SP2''"
  shows "\<exists>m et rs. buildMessage L v s = Inr m
     \<and> Fields (Header m) tag_MsgType = Some (FIXString MsgType_MARKET_DATA_REQUEST)
     \<and> Groups (Body m) tag_NoMDEntryTypes = Some et
     \<and> rg_groups et =
         map (\<lambda>t. [tag_MDEntryType \<mapsto> FIXString (index_map (MDEntryTypes L) (ToUpper L t))])
           (optionTypes v)
     \<and> Groups (Body m) tag_NoRelatedSym = Some rs
     \<and> rg_groups rs = map (\<lambda>x. [tag_Symbol \<mapsto> FIXString x]) (optionSymbols v)
     \<and> length (rg_groups et) = length (optionTypes v)
     \<and> length (rg_groups rs) = length (optionSymbols v)
     \<and> (optionSymbols v = [''EUR/USD''] \<and> optionTypes v = [''bid'', ''offer'']
          \<and> optionFullSnap v \<longrightarrow>
          length (rg_groups rs) = 1 \<and> length (rg_groups et) = 2
          \<and> Fields (Body m) tag_MDUpdateType = Some (FIXString MDUpdateType_FULL_REFRESH))"
proof -
  from assms obtain m where m: "buildMessage L v s = Inr m"
    using buildMessage_supported by blast
  let ?et = "add_entry_types L (optionTypes v)
               (NewRepeatingGroup tag_NoMDEntryTypes [tag_MDEntryType])"
  let ?rs = "add_symbols (optionSymbols v) (NewRepeatingGroup tag_NoRelatedSym [tag_Symbol])"
  have et: "rg_groups ?et =
      map (\<lambda>t. [tag_MDEntryType \<mapsto> FIXString (index_map (MDEntryTypes L) (ToUpper L t))])
        (optionTypes v)"
    by (simp add: add_entry_types_groups NewRepeatingGroup_def)
  have rs: "rg_groups ?rs = map (\<lambda>x. [tag_Symbol \<mapsto> FIXString x]) (optionSymbols v)"
    by (simp add: add_symbols_groups NewRepeatingGroup_def)
  have ty: "Fields (Header m) tag_MsgType = Some (FIXString MsgType_MARKET_DATA_REQUEST)"
    by (simp add: buildMessage_Header_Fields [OF m])
  have upd: "optionFullSnap v \<Longrightarrow>
      Fields (Body m) tag_MDUpdateType = Some (FIXString MDUpdateType_FULL_REFRESH)"
    by (simp add: buildMessage_Body_Fields [OF m])
  have len_et: "length (rg_groups ?et) = length (optionTypes v)"
    by (simp add: et)
  have len_rs: "length (rg_groups ?rs) = length (optionSymbols v)"
    by (simp add: rs)
  have scenario: "optionSymbols v = [''EUR/USD''] \<and> optionTypes v = [''bid'', ''offer'']
          \<and> optionFullSnap v \<longrightarrow>
          length (rg_groups ?rs) = 1 \<and> length (rg_groups ?et) = 2
          \<and> Fields (Body m) tag_MDUpdateType = Some (FIXString MDUpdateType_FULL_REFRESH)"
  proof
    assume a: "optionSymbols v = [''EUR/USD''] \<and> optionTypes v = [''bid'', ''offer'']
          \<and> optionFullSnap v"
    have "length (rg_groups ?rs) = 1" unfolding len_rs using a by simp
    moreover have "length (rg_groups ?et) = 2" unfolding len_et using a by simp
    ultimately show "length (rg_groups ?rs) = 1 \<and> length (rg_groups ?et) = 2
          \<and> Fields (Body m) tag_MDUpdateType = Some (FIXString MDUpdateType_FULL_REFRESH)"
      using a upd by blast
  qed
  show ?thesis
    using m ty et rs len_et len_rs scenario buildMessage_Body_Groups [OF m] by blast
qed

theorem buildMessage_market_data_request_witness:
  "BeginString sample_session = ''FIXT.1.1'' \<and> DefaultApplVerID sample_session = ''FIX.5.0SP2''
   \<and> (\<exists>m et rs. buildMessage sample_lib sample_vars sample_session = Inr m
     \<and> Fields (Header m) tag_MsgType = Some (FIXString ''V'')
     \<and> Groups (Body m) tag_NoMDEntryTypes = Some et
     \<and> rg_groups et = [[tag_MDEntryType \<mapsto> FIXString ''0''], [tag_MDEntryType \<mapsto> FIXString ''1'']]
     \<and> Groups (Body m) tag_NoRelatedSym = Some rs
     \<and> rg_groups rs = [[tag_Symbol \<mapsto> FIXString ''EUR/USD'']]
     \<and> length (rg_groups rs) = 1 \<and> length (rg_groups et) = 2
     \<and> Fields (Body m) tag_MDUpdateType = Some (FIXString ''0''))"
proof -
  have s: "BeginString sample_session = ''FIXT.1.1''" "DefaultApplVerID sample_session = ''FIX.5.0SP2''"
    by (simp_all add: sample_session_def)
  have v: "optionSymbols sample_vars = [''EUR/USD'']" "optionTypes sample_vars = [''bid'', ''offer'']"
    "optionFullSnap sample_vars"
    by (simp_all add: sample_vars_def)
  have c: "index_map (MDEntryTypes sample_lib) (ToUpper sample_lib ''bid'') = ''0''"
     "index_map (MDEntryTypes sample_lib) (ToUpper sample_lib ''offer'') = ''1''"
    by (simp_all add: sample_lib_def upper_char_def index_map_def)
  show ?thesis
    using buildMessage_market_data_request [OF s, of sample_lib sample_vars]
    by (simp add: s v c MsgType_MARKET_DATA_REQUEST_def MDUpdateType_FULL_REFRESH_def) blast
qed

text \<open>
  C8. \<open>buildMessage\<close> writes each of the header routing fields SenderCompID,
  SenderSubID, TargetCompID and TargetSubID from the session when the session's value is
  not empty; when the session's value is empty the field stays unset in the header of the
  message, so none of the four is ever present with the empty string as its value.
\<close>

theorem buildMessage_routing_fields_sparse:
  assumes "buildMessage L v s = Inr m"
  shows "Fields (Header m) tag_SenderCompID =
           (if SenderCompID s = [] then None else Some (FIXString (SenderCompID s)))
     \<and> Fields (Header m) tag_SenderSubID =
           (if SenderSubID s = [] then None else Some (FIXString (SenderSubID s)))
     \<and> Fields (Header m) tag_TargetCompID =
           (if TargetCompID s = [] then None else Some (FIXString (TargetCompID s)))
     \<and> Fields (Header m) tag_TargetSubID =
           (if TargetSubID s = [] then None else Some (FIXString (TargetSubID s)))
     \<and> Fields (Header m) tag_SenderCompID \<noteq> Some (FIXString [])
     \<and> Fields (Header m) tag_SenderSubID \<noteq> Some (FIXString [])
     \<and> Fields (Header m) tag_TargetCompID \<noteq> Some (FIXString [])
     \<and> Fields (Header m) tag_TargetSubID \<noteq> Some (FIXString [])"
  by (simp add: buildMessage_Header_Fields [OF assms])

theorem buildMessage_routing_fields_sparse_witness:
  "\<exists>m. buildMessage sample_lib sample_vars sample_session = Inr m
     \<and> Fields (Header m) tag_SenderCompID = Some (FIXString ''CLIENT'')
     \<and> Fields (Header m) tag_SenderSubID = None
     \<and> Fields (Header m) tag_TargetCompID = Some (FIXString ''BROKER'')
     \<and> Fields (Header m) tag_TargetSubID = None"
proof -
  obtain m where m: "buildMessage sample_lib sample_vars sample_session = Inr m"
    using buildMessage_supported [of sample_session sample_lib sample_vars]
    by (auto simp: sample_session_def)
  show ?thesis
    using m buildMessage_routing_fields_sparse [OF m] by (simp add: sample_session_def)
qed

section \<open>Properties of Execute\<close>

text \<open>
  C3. While the orchestrator waits for the connection (every step up to \<open>init.Start()\<close>
  has succeeded): if nothing happens on the channel \<open>Connected\<close> until the timer of the
  effective timeout has fired, \<open>Execute\<close> ends with \<open>errors.ConnectionTimeout\<close> and its
  trace holds no call of \<open>quickfix.Send\<close>; if the channel is closed, without a value,
  before the timeout has elapsed, \<open>Execute\<close> ends with \<open>errors.FixLogout\<close> (the
  specification's LogoutBeforeConnect), again without a call of \<open>quickfix.Send\<close>.
\<close>

theorem Execute_connect_wait_failures:
  assumes "started w ctx s rest ini td ad st"
  shows "((\<forall>t r. app_Connected w = Some (t, r) \<longrightarrow>
              max 0 (choose_timeout (GetOptions w) ini) < int t) \<longrightarrow>
            fst (Execute L v w) = Some (ReturnErr ConnectionTimeout) \<and>
            (\<forall>m. Call_Send m \<notin> set (snd (Execute L v w))))
       \<and> ((\<exists>t. app_Connected w = Some (t, Closed) \<and>
                int t < choose_timeout (GetOptions w) ini) \<longrightarrow>
            fst (Execute L v w) = Some (ReturnErr FixLogout) \<and>
            (\<forall>m. Call_Send m \<notin> set (snd (Execute L v w))))"
proof (intro conjI impI)
  assume a: "\<forall>t r. app_Connected w = Some (t, r) \<longrightarrow>
              max 0 (choose_timeout (GetOptions w) ini) < int t"
  have "select_connected (choose_timeout (GetOptions w) ini) (app_Connected w) (select_tie w)
          = Case_After"
    using a by (cases "app_Connected w") (auto simp: select_connected_def)
  then have e: "Execute L v w = (Some (ReturnErr ConnectionTimeout), start_trace w td ad st)"
    by (simp add: Execute_started [OF assms])
  show "fst (Execute L v w) = Some (ReturnErr ConnectionTimeout)" by (simp add: e)
  show "\<forall>m. Call_Send m \<notin> set (snd (Execute L v w))" by (simp add: e start_trace_no_Send)
next
  assume b: "\<exists>t. app_Connected w = Some (t, Closed) \<and> int t < choose_timeout (GetOptions w) ini"
  have "select_connected (choose_timeout (GetOptions w) ini) (app_Connected w) (select_tie w)
          = Case_Connected Closed"
    using b by (auto simp: select_connected_def)
  then have e: "Execute L v w = (Some (ReturnErr FixLogout), start_trace w td ad st)"
    by (simp add: Execute_started [OF assms])
  show "fst (Execute L v w) = Some (ReturnErr FixLogout)" by (simp add: e)
  show "\<forall>m. Call_Send m \<notin> set (snd (Execute L v w))" by (simp add: e start_trace_no_Send)
qed

theorem Execute_connect_wait_failures_witness:
  "started (sample_world\<lparr>app_Connected := None, events := []\<rparr>)
        sample_context sample_session [] \<lparr>SocketTimeout = 0\<rparr> ''FIXT11.xml'' ''FIX50SP2.xml''
        ''settings''
   \<and> Execute sample_lib sample_vars (sample_world\<lparr>app_Connected := None, events := []\<rparr>)
       = (Some (ReturnErr ConnectionTimeout),
          [Call_Initiate \<lparr>Settings = ''settings'', TransportDataDictionary = ''FIXT11.xml'',
             AppDataDictionary = ''FIX50SP2.xml''\<rparr> False, Call_Start])
   \<and> fst (Execute sample_lib sample_vars
        (sample_world\<lparr>app_Connected := Some (7000000000, Value), events := []\<rparr>))
       = Some (ReturnErr ConnectionTimeout)
   \<and> fst (Execute sample_lib sample_vars
        (sample_world\<lparr>app_Connected := Some (2000, Closed), events := []\<rparr>))
       = Some (ReturnErr FixLogout)"
proof -
  let ?w = "\<lambda>c. sample_world\<lparr>app_Connected := c, events := []\<rparr>"
  have t: "choose_timeout (GetOptions sample_world) \<lparr>SocketTimeout = 0\<rparr> = 5000000000"
    by (simp add: choose_timeout_def sample_world_def Second_def)
  note a = Execute_connect_wait_failures [OF sample_started [where c = "None" and es = "[]"], of sample_lib sample_vars]
  note b = Execute_connect_wait_failures
              [OF sample_started [where c = "Some (7000000000, Value)" and es = "[]"], of sample_lib sample_vars]
  note c = Execute_connect_wait_failures
              [OF sample_started [where c = "Some (2000, Closed)" and es = "[]"], of sample_lib sample_vars]
  have 1: "fst (Execute sample_lib sample_vars (?w None)) = Some (ReturnErr ConnectionTimeout)"
    using a by simp
  have 2: "fst (Execute sample_lib sample_vars (?w (Some (7000000000, Value))))
             = Some (ReturnErr ConnectionTimeout)"
    using b by (simp add: t)
  have 3: "fst (Execute sample_lib sample_vars (?w (Some (2000, Closed))))
             = Some (ReturnErr FixLogout)"
    using c by (simp add: t)
  have 4: "snd (Execute sample_lib sample_vars (?w None)) =
     [Call_Initiate \<lparr>Settings = ''settings'', TransportDataDictionary = ''FIXT11.xml'',
             AppDataDictionary = ''FIX50SP2.xml''\<rparr> False, Call_Start]"
    by (subst Execute_started [OF sample_started])
      (simp add: select_connected_def start_trace_def sample_world_def)
  show ?thesis
    using 1 2 3 4 sample_started [where c = "None" and es = "[]"] by (simp add: prod_eq_iff)
qed

text \<open>
  C5. The timeout of the connection wait is the command-line option when that is not zero,
  else the socket timeout configured for the initiator when that is not zero, else
  5 seconds; with zero at both levels it is 5 seconds. \<open>Execute\<close> waits with exactly
  this value: a \<open>Connected\<close> channel closed before it has elapsed ends the execution
  with \<open>errors.FixLogout\<close>, one closed after it ends it with
  \<open>errors.ConnectionTimeout\<close>.
\<close>

theorem Execute_timeout_resolution:
  "choose_timeout opts ini =
      (if Timeout opts \<noteq> 0 then Timeout opts
       else if SocketTimeout ini \<noteq> 0 then SocketTimeout ini
       else 5000000000)
   \<and> (Timeout opts = 0 \<and> SocketTimeout ini = 0 \<longrightarrow> choose_timeout opts ini = 5 * Second)
   \<and> (started w ctx s rest ini' td ad st \<and> app_Connected w = Some (t, Closed) \<longrightarrow>
        (let d = (if Timeout (GetOptions w) \<noteq> 0 then Timeout (GetOptions w)
                  else if SocketTimeout ini' \<noteq> 0 then SocketTimeout ini'
                  else 5000000000)
         in (int t < d \<longrightarrow> fst (Execute L v w) = Some (ReturnErr FixLogout)) \<and>
            (max 0 d < int t \<longrightarrow> fst (Execute L v w) = Some (ReturnErr ConnectionTimeout))))"
proof -
  have 1: "choose_timeout opts ini =
      (if Timeout opts \<noteq> 0 then Timeout opts
       else if SocketTimeout ini \<noteq> 0 then SocketTimeout ini
       else 5000000000)" for opts ini
    by (simp add: choose_timeout_def Second_def)
  have 2: "Timeout opts = 0 \<and> SocketTimeout ini = 0 \<longrightarrow> choose_timeout opts ini = 5 * Second"
    by (simp add: choose_timeout_def)
  have 3: "started w ctx s rest ini' td ad st \<and> app_Connected w = Some (t, Closed) \<longrightarrow>
        (let d = (if Timeout (GetOptions w) \<noteq> 0 then Timeout (GetOptions w)
                  else if SocketTimeout ini' \<noteq> 0 then SocketTimeout ini'
                  else 5000000000)
         in (int t < d \<longrightarrow> fst (Execute L v w) = Some (ReturnErr FixLogout)) \<and>
            (max 0 d < int t \<longrightarrow> fst (Execute L v w) = Some (ReturnErr ConnectionTimeout)))"
    unfolding 1 [symmetric] Let_def
    by (auto simp add: Execute_started select_connected_def)
  from 1 2 3 show ?thesis by blast
qed

theorem Execute_timeout_resolution_witness:
  "Timeout \<lparr>Timeout = 0, QuickFixLogging = False\<rparr> = 0 \<and> SocketTimeout \<lparr>SocketTimeout = 0\<rparr> = 0
   \<and> choose_timeout \<lparr>Timeout = 0, QuickFixLogging = False\<rparr> \<lparr>SocketTimeout = 0\<rparr> = 5000000000
   \<and> started (sample_world\<lparr>app_Connected := Some (4000000000, Closed), events := []\<rparr>)
        sample_context sample_session [] \<lparr>SocketTimeout = 0\<rparr> ''FIXT11.xml'' ''FIX50SP2.xml''
        ''settings''
   \<and> fst (Execute sample_lib sample_vars
             (sample_world\<lparr>app_Connected := Some (4000000000, Closed), events := []\<rparr>))
        = Some (ReturnErr FixLogout)
   \<and> fst (Execute sample_lib sample_vars
             (sample_world\<lparr>app_Connected := Some (6000000000, Closed), events := []\<rparr>))
        = Some (ReturnErr ConnectionTimeout)"
  using
    Execute_timeout_resolution [of "\<lparr>Timeout = 0, QuickFixLogging = False\<rparr>" "\<lparr>SocketTimeout = 0\<rparr>"
      "sample_world\<lparr>app_Connected := Some (4000000000, Closed), events := []\<rparr>"
      sample_context sample_session "[]" "\<lparr>SocketTimeout = 0\<rparr>" "''FIXT11.xml''" "''FIX50SP2.xml''"
      "''settings''" 4000000000 sample_lib sample_vars]
    Execute_timeout_resolution [of "\<lparr>Timeout = 0, QuickFixLogging = False\<rparr>" "\<lparr>SocketTimeout = 0\<rparr>"
      "sample_world\<lparr>app_Connected := Some (6000000000, Closed), events := []\<rparr>"
      sample_context sample_session "[]" "\<lparr>SocketTimeout = 0\<rparr>" "''FIXT11.xml''" "''FIX50SP2.xml''"
      "''settings''" 6000000000 sample_lib sample_vars]
    sample_started [where c = "Some (4000000000, Closed)" and es = "[]"]
    sample_started [where c = "Some (6000000000, Closed)" and es = "[]"]
  by (simp add: Second_def sample_world_def)

text \<open>
  C4. The claim: whenever the event loop ends, by a termination signal or by
  \<open>FromAppChan\<close> closing, the orchestrator stops the application adapter and then the
  initiator before it terminates. In the run below one application message arrives and
  then \<open>FromAppChan\<close> is closed: \<open>Execute\<close> returns \<open>nil\<close> and has called neither
  \<open>app.Stop()\<close> nor \<open>init.Stop()\<close>.
\<close>

theorem Execute_channel_closed_no_stop:
  "fst (Execute sample_lib sample_vars
         (sample_world\<lparr>app_Connected := Some (1000000, Value),
                        events := [FromAppChan Value, FromAppChan Closed]\<rparr>)) = Some ReturnNil
   \<and> Call_app_Stop \<notin> set (snd (Execute sample_lib sample_vars
         (sample_world\<lparr>app_Connected := Some (1000000, Value),
                        events := [FromAppChan Value, FromAppChan Closed]\<rparr>)))
   \<and> Call_init_Stop \<notin> set (snd (Execute sample_lib sample_vars
         (sample_world\<lparr>app_Connected := Some (1000000, Value),
                        events := [FromAppChan Value, FromAppChan Closed]\<rparr>)))"
proof -
  obtain m where m: "buildMessage sample_lib sample_vars sample_session = Inr m"
    using buildMessage_supported [of sample_session sample_lib sample_vars]
    by (auto simp: sample_session_def)
  show ?thesis
    by (subst (1 2 3) Execute_started [OF sample_started])
      (simp add: m select_connected_def choose_timeout_def Second_def start_trace_def
        sample_world_def)
qed

text \<open>
  C4, as the code has it. Once the message is sent: when the loop ends by a termination
  signal, \<open>Execute\<close> calls \<open>app.Stop()\<close>, then \<open>init.Stop()\<close>, and returns \<open>nil\<close>;
  when it ends because \<open>FromAppChan\<close> is closed, \<open>Execute\<close> returns \<open>nil\<close> and its
  last call is the \<open>quickfix.Send\<close>: the branch \<open>if !ok { break LOOP }\<close> holds no
  stop call.
\<close>

theorem Execute_loop_end_stops:
  assumes "started w ctx s rest ini td ad st" and "sent L v w s ini msg"
    and "set pre \<subseteq> {FromAppChan Value}"
  shows "(events w = pre @ Signal # post \<longrightarrow>
            Execute L v w = (Some ReturnNil,
              start_trace w td ad st @ [Call_Send msg, Call_app_Stop, Call_init_Stop]))
       \<and> (events w = pre @ FromAppChan Closed # post \<longrightarrow>
            Execute L v w = (Some ReturnNil, start_trace w td ad st @ [Call_Send msg]))"
  using assms(3)
  by (simp add: Execute_sent [OF assms(1,2)] streaming_loop_signal streaming_loop_closed)

theorem Execute_loop_end_stops_witness:
  "\<exists>msg. sent sample_lib sample_vars
            (sample_world\<lparr>app_Connected := Some (1000000, Value),
                           events := [FromAppChan Value, Signal]\<rparr>)
            sample_session \<lparr>SocketTimeout = 0\<rparr> msg
     \<and> Execute sample_lib sample_vars
          (sample_world\<lparr>app_Connected := Some (1000000, Value),
                         events := [FromAppChan Value, Signal]\<rparr>)
        = (Some ReturnNil,
           [Call_Initiate \<lparr>Settings = ''settings'', TransportDataDictionary = ''FIXT11.xml'',
              AppDataDictionary = ''FIX50SP2.xml''\<rparr> False,
            Call_Start, Call_Send msg, Call_app_Stop, Call_init_Stop])
     \<and> Execute sample_lib sample_vars
          (sample_world\<lparr>app_Connected := Some (1000000, Value),
                         events := [FromAppChan Closed]\<rparr>)
        = (Some ReturnNil,
           [Call_Initiate \<lparr>Settings = ''settings'', TransportDataDictionary = ''FIXT11.xml'',
              AppDataDictionary = ''FIX50SP2.xml''\<rparr> False,
            Call_Start, Call_Send msg])"
proof -
  obtain m where m: "buildMessage sample_lib sample_vars sample_session = Inr m"
    using buildMessage_supported [of sample_session sample_lib sample_vars]
    by (auto simp: sample_session_def)
  note a = Execute_loop_end_stops
      [OF sample_started [where c = "Some (1000000, Value)" and es = "[FromAppChan Value, Signal]"]
          sample_sent [OF m, where es = "[FromAppChan Value, Signal]"],
       where pre = "[FromAppChan Value]" and post = "[]"]
  note b = Execute_loop_end_stops
      [OF sample_started [where c = "Some (1000000, Value)" and es = "[FromAppChan Closed]"]
          sample_sent [OF m, where es = "[FromAppChan Closed]"],
       where pre = "[]" and post = "[]"]
  have 1: "Execute sample_lib sample_vars
          (sample_world\<lparr>app_Connected := Some (1000000, Value),
                         events := [FromAppChan Value, Signal]\<rparr>)
        = (Some ReturnNil,
           [Call_Initiate \<lparr>Settings = ''settings'', TransportDataDictionary = ''FIXT11.xml'',
              AppDataDictionary = ''FIX50SP2.xml''\<rparr> False,
            Call_Start, Call_Send m, Call_app_Stop, Call_init_Stop])"
    using a by (simp add: start_trace_def sample_world_def)
  have 2: "Execute sample_lib sample_vars
          (sample_world\<lparr>app_Connected := Some (1000000, Value),
                         events := [FromAppChan Closed]\<rparr>)
        = (Some ReturnNil,
           [Call_Initiate \<lparr>Settings = ''settings'', TransportDataDictionary = ''FIXT11.xml'',
              AppDataDictionary = ''FIX50SP2.xml''\<rparr> False,
            Call_Start, Call_Send m])"
    using b by (simp add: start_trace_def sample_world_def)
  show ?thesis using 1 2 sample_sent [OF m] by blast
qed

text \<open>
  C9. If a signal (interrupt or terminate) is received while streaming, after any number
  of application messages, \<open>Execute\<close> stops the adapter and the initiator and returns
  \<open>nil\<close>. If a step before the send fails -- the current context, its sessions, its
  initiator settings, the session's dictionaries, the engine settings, \<open>Initiate\<close>,
  \<open>Start\<close>, the wait for the connection (timeout or logout), \<open>buildMessage\<close> --
  \<open>Execute\<close> returns that step's error and \<open>quickfix.Send\<close> is never called. (The
  empty session list, which is a panic and not a returned error, is the matter of C10.)
\<close>

theorem Execute_clean_exit_and_early_failures:
  "(started w ctx s rest ini td ad st \<and> sent L v w s ini msg \<and>
      set pre \<subseteq> {FromAppChan Value} \<and> events w = pre @ Signal # post \<longrightarrow>
      fst (Execute L v w) = Some ReturnNil \<and>
      snd (Execute L v w) =
        start_trace w td ad st @ [Call_Send msg, Call_app_Stop, Call_init_Stop])
   \<and> (GetCurrentContext w = Inl e \<longrightarrow> returns_unsent L v w e)
   \<and> (GetCurrentContext w = Inr ctx \<and> GetSessions ctx = Inl e \<longrightarrow> returns_unsent L v w e)
   \<and> (GetCurrentContext w = Inr ctx \<and> GetSessions ctx = Inr ss \<and> GetInitiator ctx = Inl e \<longrightarrow>
        returns_unsent L v w e)
   \<and> (GetCurrentContext w = Inr ctx \<and> GetSessions ctx = Inr (s # rest) \<and>
      GetInitiator ctx = Inr ini \<and> GetFIXDictionaries s = Inl e \<longrightarrow> returns_unsent L v w e)
   \<and> (GetCurrentContext w = Inr ctx \<and> GetSessions ctx = Inr (s # rest) \<and>
      GetInitiator ctx = Inr ini \<and> GetFIXDictionaries s = Inr (td, ad) \<and>
      ToQuickFixInitiatorSettings ctx = Inl e \<longrightarrow> returns_unsent L v w e)
   \<and> (GetCurrentContext w = Inr ctx \<and> GetSessions ctx = Inr (s # rest) \<and>
      GetInitiator ctx = Inr ini \<and> GetFIXDictionaries s = Inr (td, ad) \<and>
      ToQuickFixInitiatorSettings ctx = Inr st \<and> initiator_Initiate w = Some e \<longrightarrow>
        returns_unsent L v w e)
   \<and> (GetCurrentContext w = Inr ctx \<and> GetSessions ctx = Inr (s # rest) \<and>
      GetInitiator ctx = Inr ini \<and> GetFIXDictionaries s = Inr (td, ad) \<and>
      ToQuickFixInitiatorSettings ctx = Inr st \<and> initiator_Initiate w = None \<and>
      init_Start w = Some e \<longrightarrow> returns_unsent L v w e)
   \<and> (started w ctx s rest ini td ad st \<and>
      select_connected (choose_timeout (GetOptions w) ini) (app_Connected w) (select_tie w)
        = Case_After \<longrightarrow> returns_unsent L v w ConnectionTimeout)
   \<and> (started w ctx s rest ini td ad st \<and>
      select_connected (choose_timeout (GetOptions w) ini) (app_Connected w) (select_tie w)
        = Case_Connected Closed \<longrightarrow> returns_unsent L v w FixLogout)
   \<and> (started w ctx s rest ini td ad st \<and>
      select_connected (choose_timeout (GetOptions w) ini) (app_Connected w) (select_tie w)
        = Case_Connected Value \<and> buildMessage L v s = Inl e \<longrightarrow> returns_unsent L v w e)"
proof -
  have 0: "started w ctx s rest ini td ad st \<and> sent L v w s ini msg \<and>
      set pre \<subseteq> {FromAppChan Value} \<and> events w = pre @ Signal # post \<longrightarrow>
      fst (Execute L v w) = Some ReturnNil \<and>
      snd (Execute L v w) =
        start_trace w td ad st @ [Call_Send msg, Call_app_Stop, Call_init_Stop]"
    by (auto simp add: Execute_sent streaming_loop_signal)
  have 1: "GetCurrentContext w = Inl e \<longrightarrow> returns_unsent L v w e"
    by (simp add: returns_unsent_def Execute_def)
  have 2: "GetCurrentContext w = Inr ctx \<and> GetSessions ctx = Inl e \<longrightarrow> returns_unsent L v w e"
    by (simp add: returns_unsent_def Execute_def)
  have 3: "GetCurrentContext w = Inr ctx \<and> GetSessions ctx = Inr ss \<and> GetInitiator ctx = Inl e \<longrightarrow>
        returns_unsent L v w e"
    by (simp add: returns_unsent_def Execute_def)
  have 4: "GetCurrentContext w = Inr ctx \<and> GetSessions ctx = Inr (s # rest) \<and>
      GetInitiator ctx = Inr ini \<and> GetFIXDictionaries s = Inl e \<longrightarrow> returns_unsent L v w e"
    by (simp add: returns_unsent_def Execute_def)
  have 5: "GetCurrentContext w = Inr ctx \<and> GetSessions ctx = Inr (s # rest) \<and>
      GetInitiator ctx = Inr ini \<and> GetFIXDictionaries s = Inr (td, ad) \<and>
      ToQuickFixInitiatorSettings ctx = Inl e \<longrightarrow> returns_unsent L v w e"
    by (simp add: returns_unsent_def Execute_def)
  have 6: "GetCurrentContext w = Inr ctx \<and> GetSessions ctx = Inr (s # rest) \<and>
      GetInitiator ctx = Inr ini \<and> GetFIXDictionaries s = Inr (td, ad) \<and>
      ToQuickFixInitiatorSettings ctx = Inr st \<and> initiator_Initiate w = Some e \<longrightarrow>
        returns_unsent L v w e"
    by (simp add: returns_unsent_def Execute_def)
  have 7: "GetCurrentContext w = Inr ctx \<and> GetSessions ctx = Inr (s # rest) \<and>
      GetInitiator ctx = Inr ini \<and> GetFIXDictionaries s = Inr (td, ad) \<and>
      ToQuickFixInitiatorSettings ctx = Inr st \<and> initiator_Initiate w = None \<and>
      init_Start w = Some e \<longrightarrow> returns_unsent L v w e"
    by (simp add: returns_unsent_def Execute_def)
  have 8: "started w ctx s rest ini td ad st \<and>
      select_connected (choose_timeout (GetOptions w) ini) (app_Connected w) (select_tie w)
        = Case_After \<longrightarrow> returns_unsent L v w ConnectionTimeout"
    by (auto simp add: returns_unsent_def Execute_started start_trace_no_Send)
  have 9: "started w ctx s rest ini td ad st \<and>
      select_connected (choose_timeout (GetOptions w) ini) (app_Connected w) (select_tie w)
        = Case_Connected Closed \<longrightarrow> returns_unsent L v w FixLogout"
    by (auto simp add: returns_unsent_def Execute_started start_trace_no_Send)
  have 10: "started w ctx s rest ini td ad st \<and>
      select_connected (choose_timeout (GetOptions w) ini) (app_Connected w) (select_tie w)
        = Case_Connected Value \<and> buildMessage L v s = Inl e \<longrightarrow> returns_unsent L v w e"
    by (auto simp add: returns_unsent_def Execute_started start_trace_no_Send)
  from 0 1 2 3 4 5 6 7 8 9 10 show ?thesis by blast
qed

theorem Execute_clean_exit_and_early_failures_witness:
  "returns_unsent sample_lib sample_vars
        (sample_world\<lparr>GetCurrentContext := Inl (External ''failure'')\<rparr>) (External ''failure'')
   \<and> returns_unsent sample_lib sample_vars
        (sample_world\<lparr>GetCurrentContext :=
           Inr (sample_context\<lparr>GetSessions := Inl (External ''failure'')\<rparr>)\<rparr>)
        (External ''failure'')
   \<and> returns_unsent sample_lib sample_vars
        (sample_world\<lparr>GetCurrentContext :=
           Inr (sample_context\<lparr>GetInitiator := Inl (External ''failure'')\<rparr>)\<rparr>)
        (External ''failure'')
   \<and> returns_unsent sample_lib sample_vars
        (sample_world\<lparr>GetCurrentContext := Inr (sample_context\<lparr>GetSessions :=
           Inr [sample_session\<lparr>GetFIXDictionaries := Inl (External ''failure'')\<rparr>]\<rparr>)\<rparr>)
        (External ''failure'')
   \<and> returns_unsent sample_lib sample_vars
        (sample_world\<lparr>GetCurrentContext :=
           Inr (sample_context\<lparr>ToQuickFixInitiatorSettings := Inl (External ''failure'')\<rparr>)\<rparr>)
        (External ''failure'')
   \<and> returns_unsent sample_lib sample_vars
        (sample_world\<lparr>initiator_Initiate := Some (External ''failure'')\<rparr>) (External ''failure'')
   \<and> returns_unsent sample_lib sample_vars
        (sample_world\<lparr>init_Start := Some (External ''failure'')\<rparr>) (External ''failure'')
   \<and> returns_unsent sample_lib sample_vars
        (sample_world\<lparr>app_Connected := None, events := []\<rparr>) ConnectionTimeout
   \<and> returns_unsent sample_lib sample_vars
        (sample_world\<lparr>app_Connected := Some (5, Closed), events := []\<rparr>) FixLogout
   \<and> returns_unsent sample_lib sample_vars unsupported_world FixVersionNotImplemented
   \<and> fst (Execute sample_lib sample_vars
        (sample_world\<lparr>app_Connected := Some (1000000, Value),
                       events := [FromAppChan Value, Signal]\<rparr>)) = Some ReturnNil
   \<and> (\<exists>msg. snd (Execute sample_lib sample_vars
        (sample_world\<lparr>app_Connected := Some (1000000, Value),
                       events := [FromAppChan Value, Signal]\<rparr>))
        = [Call_Initiate \<lparr>Settings = ''settings'', TransportDataDictionary = ''FIXT11.xml'',
              AppDataDictionary = ''FIX50SP2.xml''\<rparr> False,
           Call_Start, Call_Send msg, Call_app_Stop, Call_init_Stop])"
proof -
  let ?x = "External ''failure''"
  note T = Execute_clean_exit_and_early_failures
  note c0 = T [THEN conjunct1]
  note c1 = T [THEN conjunct2, THEN conjunct1]
  note c2 = T [THEN conjunct2, THEN conjunct2, THEN conjunct1]
  note c3 = T [THEN conjunct2, THEN conjunct2, THEN conjunct2, THEN conjunct1]
  note c4 = T [THEN conjunct2, THEN conjunct2, THEN conjunct2, THEN conjunct2, THEN conjunct1]
  note c5 = T [THEN conjunct2, THEN conjunct2, THEN conjunct2, THEN conjunct2, THEN conjunct2,
               THEN conjunct1]
  note c6 = T [THEN conjunct2, THEN conjunct2, THEN conjunct2, THEN conjunct2, THEN conjunct2,
               THEN conjunct2, THEN conjunct1]
  note c7 = T [THEN conjunct2, THEN conjunct2, THEN conjunct2, THEN conjunct2, THEN conjunct2,
               THEN conjunct2, THEN conjunct2, THEN conjunct1]
  note c8 = T [THEN conjunct2, THEN conjunct2, THEN conjunct2, THEN conjunct2, THEN conjunct2,
               THEN conjunct2, THEN conjunct2, THEN conjunct2, THEN conjunct1]
  note c9 = T [THEN conjunct2, THEN conjunct2, THEN conjunct2, THEN conjunct2, THEN conjunct2,
               THEN conjunct2, THEN conjunct2, THEN conjunct2, THEN conjunct2, THEN conjunct1]
  note c10 = T [THEN conjunct2, THEN conjunct2, THEN conjunct2, THEN conjunct2, THEN conjunct2,
               THEN conjunct2, THEN conjunct2, THEN conjunct2, THEN conjunct2, THEN conjunct2]
  have 1: "returns_unsent sample_lib sample_vars (sample_world\<lparr>GetCurrentContext := Inl ?x\<rparr>) ?x"
    by (rule c1 [rule_format]) simp
  have 2: "returns_unsent sample_lib sample_vars
      (sample_world\<lparr>GetCurrentContext := Inr (sample_context\<lparr>GetSessions := Inl ?x\<rparr>)\<rparr>) ?x"
    by (rule c2 [rule_format, where ctx = "sample_context\<lparr>GetSessions := Inl ?x\<rparr>"]) simp
  have 3: "returns_unsent sample_lib sample_vars
      (sample_world\<lparr>GetCurrentContext := Inr (sample_context\<lparr>GetInitiator := Inl ?x\<rparr>)\<rparr>) ?x"
    by (rule c3 [rule_format, where ctx = "sample_context\<lparr>GetInitiator := Inl ?x\<rparr>"
          and ss = "[sample_session]"]) (simp add: sample_context_def)
  have 4: "returns_unsent sample_lib sample_vars
      (sample_world\<lparr>GetCurrentContext := Inr (sample_context\<lparr>GetSessions :=
        Inr [sample_session\<lparr>GetFIXDictionaries := Inl ?x\<rparr>]\<rparr>)\<rparr>) ?x"
    by (rule c4 [rule_format, where ctx = "sample_context\<lparr>GetSessions :=
            Inr [sample_session\<lparr>GetFIXDictionaries := Inl ?x\<rparr>]\<rparr>"
          and s = "sample_session\<lparr>GetFIXDictionaries := Inl ?x\<rparr>" and rest = "[]"
          and ini = "\<lparr>SocketTimeout = 0\<rparr>"])
      (simp add: sample_context_def)
  have 5: "returns_unsent sample_lib sample_vars
      (sample_world\<lparr>GetCurrentContext :=
        Inr (sample_context\<lparr>ToQuickFixInitiatorSettings := Inl ?x\<rparr>)\<rparr>) ?x"
    by (rule c5 [rule_format, where ctx = "sample_context\<lparr>ToQuickFixInitiatorSettings := Inl ?x\<rparr>"
          and s = sample_session and rest = "[]" and ini = "\<lparr>SocketTimeout = 0\<rparr>"
          and td = "''FIXT11.xml''" and ad = "''FIX50SP2.xml''"])
      (simp add: sample_context_def sample_session_def)
  have 6: "returns_unsent sample_lib sample_vars (sample_world\<lparr>initiator_Initiate := Some ?x\<rparr>) ?x"
    by (rule c6 [rule_format, where ctx = sample_context and s = sample_session and rest = "[]"
          and ini = "\<lparr>SocketTimeout = 0\<rparr>" and td = "''FIXT11.xml''" and ad = "''FIX50SP2.xml''"
          and st = "''settings''"])
      (simp add: sample_world_def sample_context_def sample_session_def)
  have 7: "returns_unsent sample_lib sample_vars (sample_world\<lparr>init_Start := Some ?x\<rparr>) ?x"
    by (rule c7 [rule_format, where ctx = sample_context and s = sample_session and rest = "[]"
          and ini = "\<lparr>SocketTimeout = 0\<rparr>" and td = "''FIXT11.xml''" and ad = "''FIX50SP2.xml''"
          and st = "''settings''"])
      (simp add: sample_world_def sample_context_def sample_session_def)
  have 8: "returns_unsent sample_lib sample_vars
        (sample_world\<lparr>app_Connected := None, events := []\<rparr>) ConnectionTimeout"
    by (rule c8 [rule_format], intro conjI, rule sample_started)
      (simp add: select_connected_def)
  have 9: "returns_unsent sample_lib sample_vars
        (sample_world\<lparr>app_Connected := Some (5, Closed), events := []\<rparr>) FixLogout"
    by (rule c9 [rule_format], intro conjI, rule sample_started)
      (simp add: select_connected_def choose_timeout_def Second_def sample_world_def)
  have s10: "started unsupported_world
       (sample_context\<lparr>GetSessions := Inr [sample_session\<lparr>DefaultApplVerID := ''FIX.5.0''\<rparr>]\<rparr>)
       (sample_session\<lparr>DefaultApplVerID := ''FIX.5.0''\<rparr>) [] \<lparr>SocketTimeout = 0\<rparr>
       ''FIXT11.xml'' ''FIX50SP2.xml'' ''settings''"
    by (simp add: started_def unsupported_world_def sample_world_def sample_context_def
        sample_session_def)
  have 10: "returns_unsent sample_lib sample_vars unsupported_world FixVersionNotImplemented"
    by (rule c10 [rule_format], intro conjI, rule s10)
      (simp_all add: select_connected_def choose_timeout_def Second_def sample_world_def
        unsupported_world_def buildMessage_def BeginStringFIXT11_def sample_session_def)
  obtain m where m: "buildMessage sample_lib sample_vars sample_session = Inr m"
    using buildMessage_supported [of sample_session sample_lib sample_vars]
    by (auto simp: sample_session_def)
  have 0: "fst (Execute sample_lib sample_vars
        (sample_world\<lparr>app_Connected := Some (1000000, Value),
                       events := [FromAppChan Value, Signal]\<rparr>)) = Some ReturnNil
     \<and> snd (Execute sample_lib sample_vars
        (sample_world\<lparr>app_Connected := Some (1000000, Value),
                       events := [FromAppChan Value, Signal]\<rparr>))
        = start_trace (sample_world\<lparr>app_Connected := Some (1000000, Value),
                       events := [FromAppChan Value, Signal]\<rparr>) ''FIXT11.xml'' ''FIX50SP2.xml''
            ''settings'' @ [Call_Send m, Call_app_Stop, Call_init_Stop]"
    by (rule c0 [rule_format, where pre = "[FromAppChan Value]" and post = "[]"],
        intro conjI, rule sample_started, rule sample_sent [OF m]) simp_all
  have 00: "\<exists>msg. snd (Execute sample_lib sample_vars
        (sample_world\<lparr>app_Connected := Some (1000000, Value),
                       events := [FromAppChan Value, Signal]\<rparr>))
        = [Call_Initiate \<lparr>Settings = ''settings'', TransportDataDictionary = ''FIXT11.xml'',
              AppDataDictionary = ''FIX50SP2.xml''\<rparr> False,
           Call_Start, Call_Send msg, Call_app_Stop, Call_init_Stop]"
    using 0 by (simp add: start_trace_def sample_world_def)
  show ?thesis
    using 0 00 1 2 3 4 5 6 7 8 9 10 by blast
qed

text \<open>
  C10. \<open>Execute\<close> uses the first element of the list returned by \<open>GetSessions\<close>, and
  takes it with the index expression \<open>sessions[0]\<close> without a check of the length. With
  an empty list (and \<open>GetInitiator\<close> succeeding, the call between) the index expression
  panics, before any call on the engine; that is the only way \<open>Execute\<close> panics, so
  with at least one session there is no out-of-range access. The session used is the
  first: an error of its \<open>GetFIXDictionaries\<close> is the error \<open>Execute\<close> returns, its
  dictionaries are the ones handed to \<open>Initiate\<close>, every message sent is the one
  \<open>buildMessage\<close> builds from it, and the whole outcome is a function of it. The sessions
  after the first have no influence on the execution.
\<close>

theorem Execute_first_session_only:
  "(GetCurrentContext w = Inr ctx \<and> GetSessions ctx = Inr [] \<and> GetInitiator ctx = Inr ini \<longrightarrow>
      Execute L v w = (Some PanicIndexOutOfRange, []))
   \<and> (fst (Execute L v w) = Some PanicIndexOutOfRange \<longrightarrow>
        (\<exists>ctx ini. GetCurrentContext w = Inr ctx \<and> GetSessions ctx = Inr [] \<and>
                   GetInitiator ctx = Inr ini))
   \<and> (GetCurrentContext w = Inr ctx \<and> GetSessions ctx = Inr (s # rest) \<longrightarrow>
        Execute L v w = Execute L v (w\<lparr>GetCurrentContext := Inr (ctx\<lparr>GetSessions := Inr [s]\<rparr>)\<rparr>))
   \<and> (GetCurrentContext w = Inr ctx \<and> GetSessions ctx = Inr (s # rest) \<and>
      GetInitiator ctx = Inr ini \<and> GetFIXDictionaries s = Inl e \<longrightarrow>
        Execute L v w = (Some (ReturnErr e), []))
   \<and> (started w ctx s rest ini td ad st \<longrightarrow>
        take 2 (snd (Execute L v w)) =
          [Call_Initiate \<lparr>Settings = st, TransportDataDictionary = td, AppDataDictionary = ad\<rparr>
             (QuickFixLogging (GetOptions w)),
           Call_Start]
        \<and> (\<forall>m. Call_Send m \<in> set (snd (Execute L v w)) \<longrightarrow> buildMessage L v s = Inr m)
        \<and> Execute L v w =
          (case select_connected (choose_timeout (GetOptions w) ini) (app_Connected w)
                  (select_tie w) of
             Case_After \<Rightarrow> (Some (ReturnErr ConnectionTimeout), start_trace w td ad st)
           | Case_Connected Closed \<Rightarrow> (Some (ReturnErr FixLogout), start_trace w td ad st)
           | Case_Connected Value \<Rightarrow>
              (case buildMessage L v s of
                 Inl err \<Rightarrow> (Some (ReturnErr err), start_trace w td ad st)
               | Inr msg \<Rightarrow>
                  (case quickfix_Send w msg of
                     Some err \<Rightarrow> (Some (ReturnErr err), start_trace w td ad st @ [Call_Send msg])
                   | None \<Rightarrow>
                      (case streaming_loop (events w) of
                         None \<Rightarrow> (None, start_trace w td ad st @ [Call_Send msg])
                       | Some stops \<Rightarrow>
                           (Some ReturnNil,
                            start_trace w td ad st @ [Call_Send msg] @ stops))))))"
proof (intro conjI impI)
  assume "GetCurrentContext w = Inr ctx \<and> GetSessions ctx = Inr [] \<and> GetInitiator ctx = Inr ini"
  then show "Execute L v w = (Some PanicIndexOutOfRange, [])"
    by (simp add: Execute_def)
next
  assume "fst (Execute L v w) = Some PanicIndexOutOfRange"
  then show "\<exists>ctx ini. GetCurrentContext w = Inr ctx \<and> GetSessions ctx = Inr [] \<and>
                   GetInitiator ctx = Inr ini"
    by (auto simp add: Execute_def Let_def
        split: sum.splits list.splits option.splits select_case.splits recv.splits prod.splits)
next
  assume "GetCurrentContext w = Inr ctx \<and> GetSessions ctx = Inr (s # rest)"
  then show "Execute L v w = Execute L v (w\<lparr>GetCurrentContext := Inr (ctx\<lparr>GetSessions := Inr [s]\<rparr>)\<rparr>)"
    by (simp add: Execute_def Let_def
        split: sum.split list.split option.split select_case.split recv.split prod.split)
next
  assume "GetCurrentContext w = Inr ctx \<and> GetSessions ctx = Inr (s # rest) \<and>
      GetInitiator ctx = Inr ini \<and> GetFIXDictionaries s = Inl e"
  then show "Execute L v w = (Some (ReturnErr e), [])"
    by (simp add: Execute_def)
next
  assume st: "started w ctx s rest ini td ad st"
  show "take 2 (snd (Execute L v w)) =
          [Call_Initiate \<lparr>Settings = st, TransportDataDictionary = td, AppDataDictionary = ad\<rparr>
             (QuickFixLogging (GetOptions w)),
           Call_Start]"
    by (simp add: Execute_started [OF st] start_trace_def
        split: select_case.split recv.split sum.split option.split)
next
  assume st: "started w ctx s rest ini td ad st"
  show "\<forall>m. Call_Send m \<in> set (snd (Execute L v w)) \<longrightarrow> buildMessage L v s = Inr m"
    by (auto simp add: Execute_started [OF st] start_trace_def dest: streaming_loop_Some
        split: select_case.splits recv.splits sum.splits option.splits)
next
  assume st: "started w ctx s rest ini td ad st"
  show "Execute L v w =
          (case select_connected (choose_timeout (GetOptions w) ini) (app_Connected w)
                  (select_tie w) of
             Case_After \<Rightarrow> (Some (ReturnErr ConnectionTimeout), start_trace w td ad st)
           | Case_Connected Closed \<Rightarrow> (Some (ReturnErr FixLogout), start_trace w td ad st)
           | Case_Connected Value \<Rightarrow>
              (case buildMessage L v s of
                 Inl err \<Rightarrow> (Some (ReturnErr err), start_trace w td ad st)
               | Inr msg \<Rightarrow>
                  (case quickfix_Send w msg of
                     Some err \<Rightarrow> (Some (ReturnErr err), start_trace w td ad st @ [Call_Send msg])
                   | None \<Rightarrow>
                      (case streaming_loop (events w) of
                         None \<Rightarrow> (None, start_trace w td ad st @ [Call_Send msg])
                       | Some stops \<Rightarrow>
                           (Some ReturnNil,
                            start_trace w td ad st @ [Call_Send msg] @ stops)))))"
    by (rule Execute_started [OF st])
qed

theorem Execute_first_session_only_witness:
  "GetCurrentContext no_sessions_world = Inr (sample_context\<lparr>GetSessions := Inr []\<rparr>)
   \<and> GetSessions (sample_context\<lparr>GetSessions := Inr []\<rparr>) = Inr []
   \<and> GetInitiator (sample_context\<lparr>GetSessions := Inr []\<rparr>) = Inr \<lparr>SocketTimeout = 0\<rparr>
   \<and> Execute sample_lib sample_vars no_sessions_world = (Some PanicIndexOutOfRange, [])
   \<and> fst (Execute sample_lib sample_vars no_sessions_world) = Some PanicIndexOutOfRange
   \<and> GetSessions two_sessions_context = Inr (sample_session # [second_session])
   \<and> Execute sample_lib sample_vars (sample_world\<lparr>GetCurrentContext := Inr two_sessions_context\<rparr>)
       = Execute sample_lib sample_vars sample_world
   \<and> Execute sample_lib sample_vars
        (sample_world\<lparr>GetCurrentContext := Inr (sample_context\<lparr>GetSessions :=
           Inr [sample_session\<lparr>GetFIXDictionaries := Inl (External ''no dictionary'')\<rparr>,
                sample_session]\<rparr>)\<rparr>)
       = (Some (ReturnErr (External ''no dictionary'')), [])
   \<and> started (sample_world\<lparr>GetCurrentContext := Inr two_sessions_context\<rparr>)
        two_sessions_context sample_session [second_session] \<lparr>SocketTimeout = 0\<rparr>
        ''FIXT11.xml'' ''FIX50SP2.xml'' ''settings''
   \<and> GetFIXDictionaries second_session = Inr (''FIX44.xml'', ''FIX44.xml'')
   \<and> take 2 (snd (Execute sample_lib sample_vars
                     (sample_world\<lparr>GetCurrentContext := Inr two_sessions_context\<rparr>)))
       = [Call_Initiate \<lparr>Settings = ''settings'', TransportDataDictionary = ''FIXT11.xml'',
            AppDataDictionary = ''FIX50SP2.xml''\<rparr> False,
          Call_Start]
   \<and> fst (Execute sample_lib sample_vars
             (sample_world\<lparr>GetCurrentContext := Inr two_sessions_context\<rparr>)) = Some ReturnNil
   \<and> (\<exists>m. Call_Send m \<in> set (snd (Execute sample_lib sample_vars
                     (sample_world\<lparr>GetCurrentContext := Inr two_sessions_context\<rparr>)))
          \<and> buildMessage sample_lib sample_vars sample_session = Inr m
          \<and> buildMessage sample_lib sample_vars second_session = Inl FixVersionNotImplemented)"
proof -
  let ?w2 = "sample_world\<lparr>GetCurrentContext := Inr two_sessions_context\<rparr>"
  let ?x = "External ''no dictionary''"
  let ?ctx3 = "sample_context\<lparr>GetSessions :=
           Inr [sample_session\<lparr>GetFIXDictionaries := Inl ?x\<rparr>, sample_session]\<rparr>"
  have c: "GetCurrentContext no_sessions_world = Inr (sample_context\<lparr>GetSessions := Inr []\<rparr>)
     \<and> GetSessions (sample_context\<lparr>GetSessions := Inr []\<rparr>) = Inr []
     \<and> GetInitiator (sample_context\<lparr>GetSessions := Inr []\<rparr>) = Inr \<lparr>SocketTimeout = 0\<rparr>"
    by (simp add: no_sessions_world_def sample_context_def)
  have d: "GetCurrentContext ?w2 = Inr two_sessions_context
     \<and> GetSessions two_sessions_context = Inr (sample_session # [second_session])"
    by (simp add: two_sessions_context_def)
  have e: "?w2\<lparr>GetCurrentContext := Inr (two_sessions_context\<lparr>GetSessions := Inr [sample_session]\<rparr>)\<rparr>
           = sample_world"
    by (simp add: two_sessions_context_def sample_world_def sample_context_def)
  have f: "GetCurrentContext (sample_world\<lparr>GetCurrentContext := Inr ?ctx3\<rparr>) = Inr ?ctx3
     \<and> GetSessions ?ctx3 = Inr (sample_session\<lparr>GetFIXDictionaries := Inl ?x\<rparr> # [sample_session])
     \<and> GetInitiator ?ctx3 = Inr \<lparr>SocketTimeout = 0\<rparr>
     \<and> GetFIXDictionaries (sample_session\<lparr>GetFIXDictionaries := Inl ?x\<rparr>) = Inl ?x"
    by (simp add: sample_context_def)
  have st: "started ?w2 two_sessions_context sample_session [second_session]
        \<lparr>SocketTimeout = 0\<rparr> ''FIXT11.xml'' ''FIX50SP2.xml'' ''settings''"
    by (simp add: started_def two_sessions_context_def sample_world_def sample_context_def
        sample_session_def)
  have g: "GetFIXDictionaries second_session = Inr (''FIX44.xml'', ''FIX44.xml'')"
    by (simp add: second_session_def)
  note a = Execute_first_session_only [where w = no_sessions_world
      and ctx = "sample_context\<lparr>GetSessions := Inr []\<rparr>" and ini = "\<lparr>SocketTimeout = 0\<rparr>"
      and L = sample_lib and v = sample_vars]
  note b = Execute_first_session_only [where w = ?w2 and ctx = two_sessions_context
      and L = sample_lib and v = sample_vars and s = sample_session
      and rest = "[second_session]" and ini = "\<lparr>SocketTimeout = 0\<rparr>"
      and td = "''FIXT11.xml''" and ad = "''FIX50SP2.xml''" and st = "''settings''"]
  note b3 = b [THEN conjunct2, THEN conjunct2, THEN conjunct1]
  note b5 = b [THEN conjunct2, THEN conjunct2, THEN conjunct2, THEN conjunct2, THEN mp, OF st]
  note h = Execute_first_session_only [where w = "sample_world\<lparr>GetCurrentContext := Inr ?ctx3\<rparr>"
      and ctx = ?ctx3 and L = sample_lib and v = sample_vars
      and s = "sample_session\<lparr>GetFIXDictionaries := Inl ?x\<rparr>"
      and rest = "[sample_session]" and ini = "\<lparr>SocketTimeout = 0\<rparr>" and e = ?x]
  have 1: "Execute sample_lib sample_vars no_sessions_world = (Some PanicIndexOutOfRange, [])"
    using a c by blast
  have 2: "Execute sample_lib sample_vars ?w2 = Execute sample_lib sample_vars sample_world"
    using b3 d unfolding e by blast
  have 3: "Execute sample_lib sample_vars (sample_world\<lparr>GetCurrentContext := Inr ?ctx3\<rparr>)
       = (Some (ReturnErr ?x), [])"
    using h f by blast
  have 4: "take 2 (snd (Execute sample_lib sample_vars ?w2))
       = [Call_Initiate \<lparr>Settings = ''settings'', TransportDataDictionary = ''FIXT11.xml'',
            AppDataDictionary = ''FIX50SP2.xml''\<rparr> False,
          Call_Start]"
    using b5 [THEN conjunct1] by (simp add: sample_world_def)
  obtain m where m: "buildMessage sample_lib sample_vars sample_session = Inr m"
    using buildMessage_supported [of sample_session sample_lib sample_vars]
    by (auto simp: sample_session_def)
  have sel: "select_connected (choose_timeout (GetOptions ?w2) \<lparr>SocketTimeout = 0\<rparr>)
               (app_Connected ?w2) (select_tie ?w2) = Case_Connected Value"
    by (simp add: select_connected_def choose_timeout_def Second_def sample_world_def)
  have ex: "Execute sample_lib sample_vars ?w2 =
      (Some ReturnNil,
       start_trace ?w2 ''FIXT11.xml'' ''FIX50SP2.xml'' ''settings''
         @ [Call_Send m] @ [Call_app_Stop, Call_init_Stop])"
    unfolding b5 [THEN conjunct2, THEN conjunct2] sel by (simp add: m sample_world_def)
  have 5: "fst (Execute sample_lib sample_vars ?w2) = Some ReturnNil"
    by (simp add: ex)
  have 6: "Call_Send m \<in> set (snd (Execute sample_lib sample_vars ?w2))"
    by (simp add: ex)
  have 7: "buildMessage sample_lib sample_vars sample_session = Inr m"
    using b5 [THEN conjunct2, THEN conjunct1] 6 by blast
  have 8: "buildMessage sample_lib sample_vars second_session = Inl FixVersionNotImplemented"
    by (simp add: buildMessage_def BeginStringFIXT11_def second_session_def sample_session_def)
  show ?thesis using 1 2 3 4 5 6 7 8 c d st g by auto
qed

section \<open>Properties of Validate\<close>

text \<open>
  C6. The claim: \<open>Validate\<close> fails exactly when the symbol list is empty, the entry-type
  list is empty, an entry-type token is unknown or the subscription-type token is unknown.
  In the run below none of the four holds (one symbol; the tokens bid, offer and snapshot
  are in the tables) and \<open>Validate\<close> fails all the same: it returns the error of
  \<open>utils.ReconcileBoolFlags\<close>, the first thing it checks.
\<close>

theorem Validate_reconcile_failure:
  "Validate sample_lib (Some (External ''flags'')) sample_uid sample_vars = Inl (External ''flags'')
   \<and> optionSymbols sample_vars \<noteq> [] \<and> optionTypes sample_vars \<noteq> []
   \<and> MDEntryTypes sample_lib (ToUpper sample_lib ''bid'') \<noteq> None
   \<and> MDEntryTypes sample_lib (ToUpper sample_lib ''offer'') \<noteq> None
   \<and> optionTypes sample_vars = [''bid'', ''offer'']
   \<and> SubscriptionRequestTypes sample_lib (ToUpper sample_lib (optionSubType sample_vars)) \<noteq> None"
  by (simp add: Validate_def sample_vars_def sample_uppers sample_tables)

text \<open>
  C6, as the code has it. \<open>Validate\<close> fails exactly when \<open>utils.ReconcileBoolFlags\<close>
  returns an error, or the symbol list is empty, or the entry-type list is empty, or some
  entry-type token, upper-cased, is not a key of the entry-type table, or the
  subscription-type token, upper-cased, is not a key of the subscription-request-type
  table. When it fails the command makes no call on the engine: the trace is empty.
  Tokens are looked up by their upper-cased form only: replacing the tokens by others with
  the same upper-cased forms does not change whether \<open>Validate\<close> fails.
\<close>

theorem Validate_fails_iff:
  "(isl (Validate L reconcile uid v) \<longleftrightarrow>
      reconcile \<noteq> None \<or> optionSymbols v = [] \<or> optionTypes v = [] \<or>
      (\<exists>t \<in> set (optionTypes v). MDEntryTypes L (ToUpper L t) = None) \<or>
      SubscriptionRequestTypes L (ToUpper L (optionSubType v)) = None)
   \<and> (isl (Validate L reconcile uid v) \<longrightarrow>
        snd (MarketDataRequestCmd L reconcile uid parent v w) = [])
   \<and> (map (ToUpper L) ts = map (ToUpper L) (optionTypes v) \<and>
      ToUpper L sub = ToUpper L (optionSubType v) \<longrightarrow>
        isl (Validate L reconcile uid (v\<lparr>optionTypes := ts, optionSubType := sub\<rparr>))
          = isl (Validate L reconcile uid v))"
proof (intro conjI impI)
  show "isl (Validate L reconcile uid v) \<longleftrightarrow>
      reconcile \<noteq> None \<or> optionSymbols v = [] \<or> optionTypes v = [] \<or>
      (\<exists>t \<in> set (optionTypes v). MDEntryTypes L (ToUpper L t) = None) \<or>
      SubscriptionRequestTypes L (ToUpper L (optionSubType v)) = None"
    by (auto simp add: isl_Validate check_types_None)
next
  assume "isl (Validate L reconcile uid v)"
  then show "snd (MarketDataRequestCmd L reconcile uid parent v w) = []"
    by (cases "Validate L reconcile uid v") (simp_all add: MarketDataRequestCmd_def)
next
  assume a: "map (ToUpper L) ts = map (ToUpper L) (optionTypes v) \<and>
      ToUpper L sub = ToUpper L (optionSubType v)"
  then have "length ts = length (optionTypes v)" using map_eq_imp_length_eq by blast
  then have e: "ts = [] \<longleftrightarrow> optionTypes v = []" by auto
  show "isl (Validate L reconcile uid (v\<lparr>optionTypes := ts, optionSubType := sub\<rparr>))
          = isl (Validate L reconcile uid v)"
    unfolding isl_Validate using a e check_types_upper [of L ts "optionTypes v"] by simp
qed

theorem Validate_fails_iff_witness:
  "\<not> isl (Validate sample_lib None sample_uid sample_vars)
   \<and> isl (Validate sample_lib None sample_uid (sample_vars\<lparr>optionTypes := [''bid'', ''ask'']\<rparr>))
   \<and> snd (MarketDataRequestCmd sample_lib None sample_uid None
             (sample_vars\<lparr>optionTypes := [''bid'', ''ask'']\<rparr>) sample_world) = []
   \<and> map (ToUpper sample_lib) [''BID'', ''Offer''] = map (ToUpper sample_lib) (optionTypes sample_vars)
   \<and> ToUpper sample_lib ''SnapShot'' = ToUpper sample_lib (optionSubType sample_vars)
   \<and> \<not> isl (Validate sample_lib None sample_uid
             (sample_vars\<lparr>optionTypes := [''BID'', ''Offer''], optionSubType := ''SnapShot''\<rparr>))"
proof -
  note a = Validate_fails_iff [of sample_lib None sample_uid sample_vars None sample_world
      "[''BID'', ''Offer'']" "''SnapShot''"]
  note b = Validate_fails_iff [of sample_lib None sample_uid
      "sample_vars\<lparr>optionTypes := [''bid'', ''ask'']\<rparr>" None sample_world]
  have v: "optionTypes sample_vars = [''bid'', ''offer'']" "optionSubType sample_vars = ''snapshot''"
      "optionSymbols sample_vars = [''EUR/USD'']"
    by (simp_all add: sample_vars_def)
  have 1: "\<not> isl (Validate sample_lib None sample_uid sample_vars)"
    using a by (simp add: v sample_uppers sample_tables)
  have u: "map (ToUpper sample_lib) [''BID'', ''Offer''] = map (ToUpper sample_lib) (optionTypes sample_vars)"
     "ToUpper sample_lib ''SnapShot'' = ToUpper sample_lib (optionSubType sample_vars)"
    by (simp_all add: v sample_uppers)
  have 2: "\<not> isl (Validate sample_lib None sample_uid
             (sample_vars\<lparr>optionTypes := [''BID'', ''Offer''], optionSubType := ''SnapShot''\<rparr>))"
    using a u 1 by blast
  have 3: "isl (Validate sample_lib None sample_uid (sample_vars\<lparr>optionTypes := [''bid'', ''ask'']\<rparr>))"
    using b by (simp add: v sample_uppers sample_tables)
  have 4: "snd (MarketDataRequestCmd sample_lib None sample_uid None
             (sample_vars\<lparr>optionTypes := [''bid'', ''ask'']\<rparr>) sample_world) = []"
    using b 3 by blast
  show ?thesis using 1 2 3 4 u by blast
qed

text \<open>
  C7. When \<open>Validate\<close> succeeds it leaves a request ID supplied by the caller as it is,
  and replaces an empty one by the text of a freshly generated UUID (\<open>uid\<close>, which is
  not empty: such a text has 36 characters). Every message then built from the option
  variables, and so every message the command sends, carries that request ID, which is not
  empty, as its MDReqID. That two generated identifiers differ is a property of the UUID
  library and not of this package.
\<close>

theorem request_id_autogenerated:
  assumes "Validate L reconcile uid v = Inr v'" and "uid \<noteq> []"
  shows "optionMDReqID v' = (if optionMDReqID v = [] then uid else optionMDReqID v)
     \<and> optionMDReqID v' \<noteq> []
     \<and> (\<forall>s m. buildMessage L v' s = Inr m \<longrightarrow>
           Fields (Body m) tag_MDReqID = Some (FIXString (optionMDReqID v')))
     \<and> (\<forall>m. Call_Send m \<in> set (snd (MarketDataRequestCmd L reconcile uid parent v w)) \<longrightarrow>
           Fields (Body m) tag_MDReqID = Some (FIXString (optionMDReqID v')))"
proof -
  have 1: "optionMDReqID v' = (if optionMDReqID v = [] then uid else optionMDReqID v)"
    using Validate_Inr [OF assms(1)] by simp
  have 2: "optionMDReqID v' \<noteq> []"
    using 1 assms(2) by (simp split: if_splits)
  have 3: "Fields (Body m) tag_MDReqID = Some (FIXString (optionMDReqID v'))"
    if "buildMessage L v' s = Inr m" for s m
    by (simp add: buildMessage_Body_Fields [OF that])
  have 4: "Fields (Body m) tag_MDReqID = Some (FIXString (optionMDReqID v'))"
    if "Call_Send m \<in> set (snd (MarketDataRequestCmd L reconcile uid parent v w))" for m
    using MarketDataRequestCmd_Send_built [OF that] assms(1) 3 by auto
  from 1 2 3 4 show ?thesis by blast
qed

theorem request_id_autogenerated_witness:
  "Validate sample_lib None sample_uid (sample_vars\<lparr>optionMDReqID := ''''\<rparr>)
      = Inr (sample_vars\<lparr>optionMDReqID := sample_uid\<rparr>)
   \<and> Validate sample_lib None sample_uid sample_vars = Inr sample_vars
   \<and> sample_uid \<noteq> []
   \<and> optionMDReqID sample_vars = ''req-1''
   \<and> (\<exists>m. buildMessage sample_lib (sample_vars\<lparr>optionMDReqID := sample_uid\<rparr>) sample_session = Inr m
        \<and> Call_Send m \<in> set (snd (MarketDataRequestCmd sample_lib None sample_uid None
                                   (sample_vars\<lparr>optionMDReqID := ''''\<rparr>) sample_world))
        \<and> Fields (Body m) tag_MDReqID = Some (FIXString sample_uid))
   \<and> (\<exists>m. buildMessage sample_lib sample_vars sample_session = Inr m
        \<and> Fields (Body m) tag_MDReqID = Some (FIXString ''req-1''))"
proof -
  have va: "Validate sample_lib None sample_uid (sample_vars\<lparr>optionMDReqID := ''''\<rparr>)
      = Inr (sample_vars\<lparr>optionMDReqID := sample_uid\<rparr>)"
    by (simp add: Validate_def sample_vars_def sample_uppers sample_tables)
  have vb: "Validate sample_lib None sample_uid sample_vars = Inr sample_vars"
    by (simp add: Validate_def sample_vars_def sample_uppers sample_tables)
  have u: "sample_uid \<noteq> []" by (simp add: sample_uid_def)
  have r: "optionMDReqID sample_vars = ''req-1''" by (simp add: sample_vars_def)
  note a = request_id_autogenerated [OF va u, of None sample_world]
  note b = request_id_autogenerated [OF vb u, of None sample_world]
  obtain m where m: "buildMessage sample_lib (sample_vars\<lparr>optionMDReqID := sample_uid\<rparr>)
                       sample_session = Inr m"
    using buildMessage_supported [of sample_session sample_lib] by (auto simp: sample_session_def)
  obtain m' where m': "buildMessage sample_lib sample_vars sample_session = Inr m'"
    using buildMessage_supported [of sample_session sample_lib] by (auto simp: sample_session_def)
  have w: "sample_world\<lparr>app_Connected := Some (1000000, Value),
                        events := [FromAppChan Value, Signal]\<rparr> = sample_world"
    by (simp add: sample_world_def)
  note st = sample_started [where c = "Some (1000000, Value)"
      and es = "[FromAppChan Value, Signal]", unfolded w]
  have snt: "sent sample_lib (sample_vars\<lparr>optionMDReqID := sample_uid\<rparr>) sample_world
               sample_session \<lparr>SocketTimeout = 0\<rparr> m"
    using m by (simp add: sent_def select_connected_def choose_timeout_def Second_def
        sample_world_def)
  have ev: "events sample_world = [FromAppChan Value, Signal]"
    by (simp add: sample_world_def)
  have "Call_Send m \<in> set (snd (Execute sample_lib (sample_vars\<lparr>optionMDReqID := sample_uid\<rparr>)
                                sample_world))"
    by (simp add: Execute_sent [OF st snt] ev)
  then have s: "Call_Send m \<in> set (snd (MarketDataRequestCmd sample_lib None sample_uid None
                                   (sample_vars\<lparr>optionMDReqID := ''''\<rparr>) sample_world))"
    by (simp add: MarketDataRequestCmd_def va)
  have 1: "Fields (Body m) tag_MDReqID = Some (FIXString sample_uid)"
    using a m by simp
  have 2: "Fields (Body m') tag_MDReqID = Some (FIXString ''req-1'')"
    using b m' r by simp
  show ?thesis using va vb u r m m' s 1 2 by blast
qed

end
